theory Spec2Isabelle
  imports Main "HOL-Library.Log_Nat" "HOL-Library.Sublist"
begin

section \<open>Python values and exceptions used by \<open>chalice/cli/factory.py\<close>\<close>

text \<open>
  A Python float is an IEEE double: a finite value (kept here as the rational number it
  denotes), one of the two infinities, or NaN.
\<close>

datatype pyfloat = Finite rat | PosInf | NegInf | NaN

text \<open>
  The Python values that reach the code: what \<open>json.loads\<close> produces (None, bool, int,
  float, str, list, dict with string keys) and plain objects with data attributes
  (botocore's operation model with its \<open>name\<close>, the imported module with its \<open>app\<close>).
  A str is the list of its code points, each below 256.
\<close>

datatype pyval =
    PNone
  | PBool bool
  | PInt int
  | PFloat pyfloat
  | PStr string
  | PList "pyval list"
  | PDict "(string \<times> pyval) list"
  | PObj "(string \<times> pyval) list"

text \<open>
  Exceptions. Each constructor stands for the class and its subclasses, which is what an
  \<open>except\<close> clause matches: \<open>OSError\<close> covers \<open>IOError\<close>, \<open>ValueError\<close> covers the JSON
  and Unicode decode errors, \<open>SyntaxError\<close> covers \<open>IndentationError\<close>. A \<open>SyntaxError\<close>
  carries its attributes \<open>filename\<close>, \<open>lineno\<close>, \<open>text\<close> and \<open>msg\<close>, each of which may be
  None. \<open>UnknownConfigFileVersion\<close> carries the argument its constructor was called with,
  from which the constructor builds the message.
\<close>

datatype pyexc =
    OSError
  | ValueError
  | TypeError
  | OverflowError
  | AttributeError
  | IndexError
  | SyntaxError "string option" "int option" "string option" "string option"
  | RuntimeError string
  | UnknownConfigFileVersion pyval
  | OtherException string

section \<open>\<open>LargeRequestBodyFilter\<close>\<close>

text \<open>
  A log record: the message object, the tuple of positional arguments, and the other
  fields of \<open>logging.LogRecord\<close> that the filter never touches.
\<close>

record log_record =
  msg :: pyval
  args :: "pyval list"
  logger_name :: string
  levelno :: int

definition placeholder :: string where
  "placeholder = ''(... omitted from logs due to size ...)''"

text \<open>\<open>record.msg.startswith(p)\<close>: only a str has the method.\<close>

definition startswith :: "pyval \<Rightarrow> string \<Rightarrow> pyexc + bool" where
  "startswith v p = (case v of PStr s \<Rightarrow> Inr (take (length p) s = p) | _ \<Rightarrow> Inl AttributeError)"

text \<open>\<open>t[0]\<close> on a tuple.\<close>

definition index0 :: "pyval list \<Rightarrow> pyexc + pyval" where
  "index0 t = (case t of [] \<Rightarrow> Inl IndexError | x # _ \<Rightarrow> Inr x)"

text \<open>
  \<open>getattr(v, a)\<close> for the attribute names the code asks for (\<open>name\<close>, \<open>app\<close>): none of
  the built-in value types has them, an object has the attributes it was given.
\<close>

definition getattr :: "pyval \<Rightarrow> string \<Rightarrow> pyexc + pyval" where
  "getattr v a = (case v of
       PObj attrs \<Rightarrow> (case map_of attrs a of None \<Rightarrow> Inl AttributeError | Some x \<Rightarrow> Inr x)
     | _ \<Rightarrow> Inl AttributeError)"

text \<open>
  \<open>LargeRequestBodyFilter.filter\<close>. The record is mutated in place, so the model
  returns the record together with the boolean; an exception leaves the record as it was
  (every raise precedes the assignment).
\<close>

definition filter_record :: "log_record \<Rightarrow> pyexc + (log_record \<times> bool)" where
  "filter_record r =
     (case startswith (msg r) ''Making request'' of
        Inl e \<Rightarrow> Inl e
      | Inr False \<Rightarrow> Inr (r, True)
      | Inr True \<Rightarrow>
          (case index0 (args r) of
             Inl e \<Rightarrow> Inl e
           | Inr a0 \<Rightarrow>
               (case getattr a0 ''name'' of
                  Inl e \<Rightarrow> Inl e
                | Inr n \<Rightarrow>
                    if n \<in> set [PStr ''UpdateFunctionCode'', PStr ''CreateFunction'']
                    then Inr (r\<lparr>args := butlast (args r) @ [PStr placeholder]\<rparr>, True)
                    else Inr (r, True))))"

text \<open>Applying the filter to a record and then again to the record it left behind.\<close>

definition filter_twice :: "log_record \<Rightarrow> pyexc + (log_record \<times> bool)" where
  "filter_twice r = (case filter_record r of Inl e \<Rightarrow> Inl e | Inr (r', _) \<Rightarrow> filter_record r')"

text \<open>
  The two conditions of the rule, as predicates on the record: \<open>startswith\<close> answers
  True, and \<open>record.args[0].name\<close> evaluates to one of the two operation names.
\<close>

definition has_prefix :: "log_record \<Rightarrow> bool" where
  "has_prefix r = (startswith (msg r) ''Making request'' = Inr True)"

definition operation_name :: "log_record \<Rightarrow> pyexc + pyval" where
  "operation_name r = (case index0 (args r) of Inl e \<Rightarrow> Inl e | Inr a0 \<Rightarrow> getattr a0 ''name'')"

definition names_lambda_operation :: "log_record \<Rightarrow> bool" where
  "names_lambda_operation r =
     (operation_name r = Inr (PStr ''UpdateFunctionCode'') \<or>
      operation_name r = Inr (PStr ''CreateFunction''))"

text \<open>
  The records on which the filter returns at all: the message is a str and, when it has
  the prefix, \<open>record.args[0].name\<close> can be evaluated.
\<close>

definition filter_returns :: "log_record \<Rightarrow> bool" where
  "filter_returns r =
     (case startswith (msg r) ''Making request'' of
        Inl _ \<Rightarrow> False
      | Inr False \<Rightarrow> True
      | Inr True \<Rightarrow> (case operation_name r of Inl _ \<Rightarrow> False | Inr _ \<Rightarrow> True))"

section \<open>Text helpers\<close>

text \<open>\<open>str(n)\<close> for an int: its decimal digits, with a minus sign when negative.\<close>

definition digit_char :: "nat \<Rightarrow> char" where
  "digit_char d = ''0123456789'' ! d"

fun str_nat :: "nat \<Rightarrow> string" where
  "str_nat n = (if n < 10 then [digit_char n] else str_nat (n div 10) @ [digit_char (n mod 10)])"

definition str_int :: "int \<Rightarrow> string" where
  "str_int i = (if i < 0 then CHR ''-'' # str_nat (nat (- i)) else str_nat (nat i))"

text \<open>\<open>'%s' % v\<close> for a value that is a str or None, and for one that is an int or None.\<close>

definition str_or_none :: "string option \<Rightarrow> string" where
  "str_or_none v = (case v of None \<Rightarrow> ''None'' | Some s \<Rightarrow> s)"

definition int_or_none :: "int option \<Rightarrow> string" where
  "int_or_none v = (case v of None \<Rightarrow> ''None'' | Some i \<Rightarrow> str_int i)"

text \<open>
  \<open>os.path.join(a, b)\<close> of \<open>posixpath\<close>, for two components: an absolute \<open>b\<close> replaces
  \<open>a\<close>, otherwise exactly one separator is put between them unless \<open>a\<close> is empty or
  already ends with one.
\<close>

definition path_join :: "string \<Rightarrow> string \<Rightarrow> string" where
  "path_join a b =
     (if take 1 b = ''/'' then b
      else if a = [] \<or> last a = CHR ''/'' then a @ b
      else a @ ''/'' @ b)"

section \<open>\<open>float()\<close> and comparison with \<open>2.0\<close>\<close>

text \<open>
  Rounding a rational to the nearest double, ties to even (IEEE 754 binary64: 53
  significant bits, least normal exponent -1022, overflow from \<open>2^1024\<close> on).
\<close>

definition floor_log2 :: "rat \<Rightarrow> int" where
  "floor_log2 q =
     (let k = bitlen (fst (quotient_of q)) - bitlen (snd (quotient_of q))
      in if 2 powi k \<le> q then k else k - 1)"

definition round_half_even :: "rat \<Rightarrow> int" where
  "round_half_even q =
     (let f = \<lfloor>q\<rfloor>; r = q - of_int f
      in if r < 1 / 2 then f else if 1 / 2 < r then f + 1 else if even f then f else f + 1)"

definition round_double :: "rat \<Rightarrow> pyfloat" where
  "round_double q =
     (if q = 0 then Finite 0
      else
        let e = max (floor_log2 \<bar>q\<bar>) (- 1022);
            u = 2 powi (e - 52);
            r = of_int (round_half_even (q / u)) * u
        in if 2 powi 1024 \<le> \<bar>r\<bar> then (if 0 < q then PosInf else NegInf) else Finite r)"

text \<open>
  The text accepted by \<open>float(s)\<close> (CPython 3.6 and later). A str is the list of its
  code points, and the strs of this model are those whose code points are below 256.
  A str that is not all ASCII first has its non-ASCII whitespace (the code points 133
  and 160) replaced by spaces, and is cut, with a question mark, at the first other
  code point from 127 on, none of which is a decimal digit. Then an underscore is
  allowed only between two digits; surrounding ASCII whitespace is dropped; and an
  optional sign is followed by \<open>inf\<close>, \<open>infinity\<close> or \<open>nan\<close> in any letter case, or by a
  decimal number with an optional fraction and an optional exponent.
\<close>

definition is_unicode_space :: "char \<Rightarrow> bool" where
  "is_unicode_space c = ((of_char c :: nat) \<in> {133, 160})"

fun replace_spaces :: "string \<Rightarrow> string" where
  "replace_spaces [] = []"
| "replace_spaces (c # cs) =
     (if (of_char c :: nat) < 127 then c # replace_spaces cs
      else if is_unicode_space c then CHR '' '' # replace_spaces cs
      else ''?'')"

definition to_ascii :: "string \<Rightarrow> string" where
  "to_ascii s = (if list_all (\<lambda>c. (of_char c :: nat) < 128) s then s else replace_spaces s)"

definition is_space :: "char \<Rightarrow> bool" where
  "is_space c = ((of_char c :: nat) \<in> {9, 10, 11, 12, 13, 32})"

definition is_digit :: "char \<Rightarrow> bool" where
  "is_digit c = (48 \<le> (of_char c :: nat) \<and> (of_char c :: nat) \<le> 57)"

definition lower :: "char \<Rightarrow> char" where
  "lower c = (if 65 \<le> (of_char c :: nat) \<and> (of_char c :: nat) \<le> 90
              then char_of ((of_char c :: nat) + 32) else c)"

definition strip :: "string \<Rightarrow> string" where
  "strip s = rev (dropWhile is_space (rev (dropWhile is_space s)))"

fun underscores_ok :: "char \<Rightarrow> string \<Rightarrow> bool" where
  "underscores_ok prev [] = (prev \<noteq> CHR ''_'')"
| "underscores_ok prev (c # cs) =
     ((if c = CHR ''_'' then is_digit prev else (prev = CHR ''_'' \<longrightarrow> is_digit c)) \<and>
      underscores_ok c cs)"

definition digits_value :: "string \<Rightarrow> int" where
  "digits_value ds = foldl (\<lambda>a c. 10 * a + ((of_char c :: int) - 48)) 0 ds"

definition parse_exponent :: "string \<Rightarrow> int option" where
  "parse_exponent s =
     (let (neg, ds) = (case s of
                         c # t \<Rightarrow> if c = CHR ''+'' then (False, t)
                                  else if c = CHR ''-'' then (True, t) else (False, s)
                       | [] \<Rightarrow> (False, s))
      in if ds \<noteq> [] \<and> list_all is_digit ds
         then Some (if neg then - digits_value ds else digits_value ds)
         else None)"

definition parse_decimal :: "string \<Rightarrow> rat option" where
  "parse_decimal s =
     (let ip = takeWhile is_digit s;
          r1 = dropWhile is_digit s;
          (fp, r2) = (case r1 of
                        c # t \<Rightarrow> if c = CHR ''.''
                                 then (takeWhile is_digit t, dropWhile is_digit t) else ([], r1)
                      | [] \<Rightarrow> ([], r1));
          m = of_int (digits_value (ip @ fp)) / 10 ^ length fp
      in if ip = [] \<and> fp = [] then None
         else (case r2 of
                 [] \<Rightarrow> Some m
               | c # t \<Rightarrow>
                   if c = CHR ''e'' \<or> c = CHR ''E''
                   then (case parse_exponent t of None \<Rightarrow> None | Some x \<Rightarrow> Some (m * 10 powi x))
                   else None))"

text \<open>
  What a text accepted by \<open>float\<close> denotes, before rounding: an infinity with its sign
  (True for minus), NaN, or a decimal number with its exact value.
\<close>

datatype float_literal = LitInf bool | LitNaN | LitDecimal rat

definition parse_float_literal :: "string \<Rightarrow> float_literal option" where
  "parse_float_literal s0 =
     (if \<not> underscores_ok (CHR 0x00) (to_ascii s0) then None
      else
        let s = strip (filter (\<lambda>c. c \<noteq> CHR ''_'') (to_ascii s0));
            (neg, body) = (case s of
                             c # t \<Rightarrow> if c = CHR ''+'' then (False, t)
                                      else if c = CHR ''-'' then (True, t) else (False, s)
                           | [] \<Rightarrow> (False, s))
        in if map lower body = ''inf'' \<or> map lower body = ''infinity'' then Some (LitInf neg)
           else if map lower body = ''nan'' then Some LitNaN
           else (case parse_decimal body of
                   None \<Rightarrow> None
                 | Some q \<Rightarrow> Some (LitDecimal (if neg then - q else q))))"

definition float_of_literal :: "float_literal \<Rightarrow> pyfloat" where
  "float_of_literal l =
     (case l of
        LitInf neg \<Rightarrow> (if neg then NegInf else PosInf)
      | LitNaN \<Rightarrow> NaN
      | LitDecimal q \<Rightarrow> round_double q)"

definition float_of_string :: "string \<Rightarrow> pyexc + pyfloat" where
  "float_of_string s =
     (case parse_float_literal s of
        None \<Rightarrow> Inl ValueError
      | Some l \<Rightarrow> Inr (float_of_literal l))"

text \<open>
  \<open>float(v)\<close>: a float is returned as it is, a bool or int is rounded (an int beyond the
  range of a double raises \<open>OverflowError\<close>), a str is parsed (a text that is no float
  raises \<open>ValueError\<close>), anything else raises \<open>TypeError\<close>.
\<close>

definition py_float :: "pyval \<Rightarrow> pyexc + pyfloat" where
  "py_float v =
     (case v of
        PFloat f \<Rightarrow> Inr f
      | PBool b \<Rightarrow> Inr (Finite (if b then 1 else 0))
      | PInt i \<Rightarrow> (case round_double (of_int i) of Finite r \<Rightarrow> Inr (Finite r) | _ \<Rightarrow> Inl OverflowError)
      | PStr s \<Rightarrow> float_of_string s
      | _ \<Rightarrow> Inl TypeError)"

text \<open>\<open>x > 2.0\<close> on floats: false for NaN.\<close>

definition gt_2 :: "pyfloat \<Rightarrow> bool" where
  "gt_2 x = (case x of Finite q \<Rightarrow> 2 < q | PosInf \<Rightarrow> True | NegInf \<Rightarrow> False | NaN \<Rightarrow> False)"

section \<open>\<open>UnknownConfigFileVersion\<close> and \<open>CLIFactory._validate_config_from_disk\<close>\<close>


text \<open>\<open>config.get(key, default)\<close>: only a dict has the method.\<close>

definition dict_get :: "pyval \<Rightarrow> string \<Rightarrow> pyval \<Rightarrow> pyexc + pyval" where
  "dict_get d k dflt =
     (case d of
        PDict kvs \<Rightarrow> Inr (case map_of kvs k of None \<Rightarrow> dflt | Some v \<Rightarrow> v)
      | _ \<Rightarrow> Inl AttributeError)"

text \<open>
  \<open>_validate_config_from_disk\<close>: the \<open>try\<close> turns a \<open>ValueError\<close> of \<open>float\<close> into
  \<open>UnknownConfigFileVersion\<close>; any other exception of \<open>float\<close> passes through.
\<close>

definition validate_config_from_disk :: "pyval \<Rightarrow> pyexc + unit" where
  "validate_config_from_disk config =
     (case dict_get config ''version'' (PStr ''1.0'') of
        Inl e \<Rightarrow> Inl e
      | Inr string_version \<Rightarrow>
          (case py_float string_version of
             Inr version \<Rightarrow>
               if gt_2 version then Inl (UnknownConfigFileVersion string_version) else Inr ()
           | Inl ValueError \<Rightarrow> Inl (UnknownConfigFileVersion string_version)
           | Inl e \<Rightarrow> Inl e))"


definition is_nan_text :: "string \<Rightarrow> bool" where
  "is_nan_text s = (parse_float_literal s = Some LitNaN)"

definition version_text_accepted :: "string \<Rightarrow> bool" where
  "version_text_accepted s =
     (case parse_float_literal s of
        Some (LitInf neg) \<Rightarrow> neg
      | Some (LitDecimal q) \<Rightarrow> q \<le> 2 + 1 / 2 ^ 52
      | _ \<Rightarrow> False)"

section \<open>\<open>CLIFactory\<close>\<close>

record cli_factory =
  project_dir :: string
  debug :: bool
  profile :: "string option"

text \<open>
  What the code reads from outside itself: whether a path is a directory, the outcome of
  opening, reading and JSON-decoding a file, and the outcome of importing a module under
  a given search path.
\<close>

record environment =
  isdir :: "string \<Rightarrow> bool"
  read_json :: "string \<Rightarrow> pyexc + pyval"
  import_module :: "string list \<Rightarrow> string \<Rightarrow> pyexc + pyval"

text \<open>
  The process state the code changes, \<open>sys.path\<close>, and the list of the external actions
  it has performed so far, oldest first.
\<close>

datatype action = ReadConfig string | ImportModule string | ConstructConfig

record process =
  sys_path :: "string list"
  actions :: "action list"

text \<open>
  \<open>load_project_config\<close>; \<open>config_file\<close> is its local variable of that name,
  \<open>os.path.join(self.project_dir, '.chalice', 'config.json')\<close>.
\<close>

definition config_file :: "cli_factory \<Rightarrow> string" where
  "config_file self = path_join (path_join (project_dir self) ''.chalice'') ''config.json''"

definition load_project_config ::
  "cli_factory \<Rightarrow> environment \<Rightarrow> process \<Rightarrow> process \<times> (pyexc + pyval)" where
  "load_project_config self env st =
     (st\<lparr>actions := actions st @ [ReadConfig (config_file self)]\<rparr>,
      read_json env (config_file self))"

text \<open>The first part of \<open>load_chalice_app\<close>: the two updates of \<open>sys.path\<close>.\<close>

definition adjust_sys_path :: "(string \<Rightarrow> bool) \<Rightarrow> string \<Rightarrow> string list \<Rightarrow> string list" where
  "adjust_sys_path is_dir pd path =
     (let path1 = (if pd \<notin> set path then pd # path else path);
          vendor_dir = path_join pd ''vendor''
      in if is_dir vendor_dir \<and> vendor_dir \<notin> set path1 then path1 @ [vendor_dir] else path1)"

text \<open>The message built in the \<open>except SyntaxError\<close> clause.\<close>

definition syntax_error_message ::
  "string option \<Rightarrow> int option \<Rightarrow> string option \<Rightarrow> string option \<Rightarrow> string" where
  "syntax_error_message filename lineno etext emsg =
     ''Unable to import your app.py file:'' @ [CHR 0x0A, CHR 0x0A] @
     ''File '' @ [CHR 0x22] @ str_or_none filename @ [CHR 0x22] @ '', line '' @ int_or_none lineno @
     [CHR 0x0A] @ ''  '' @ str_or_none etext @ [CHR 0x0A] @
     ''SyntaxError: '' @ str_or_none emsg"

text \<open>
  \<open>load_chalice_app\<close>: the body of the \<open>try\<close> is the import followed by \<open>getattr\<close>; a
  \<open>SyntaxError\<close> raised there is replaced, every other exception is left to propagate.
\<close>

definition load_chalice_app ::
  "cli_factory \<Rightarrow> environment \<Rightarrow> process \<Rightarrow> process \<times> (pyexc + pyval)" where
  "load_chalice_app self env st =
     (let path = adjust_sys_path (isdir env) (project_dir self) (sys_path st);
          st' = st\<lparr>sys_path := path, actions := actions st @ [ImportModule ''app'']\<rparr>;
          body = (case import_module env path ''app'' of
                    Inl e \<Rightarrow> Inl e
                  | Inr app \<Rightarrow> getattr app ''app'')
      in (st',
          (case body of
             Inl (SyntaxError filename lineno etext emsg) \<Rightarrow>
               Inl (RuntimeError (syntax_error_message filename lineno etext emsg))
           | Inl e \<Rightarrow> Inl e
           | Inr chalice_app \<Rightarrow> Inr chalice_app)))"

text \<open>
  The \<open>Config\<close> object: the constructor belongs to another module; it is given the stage
  and the three layers, which is all this file decides.
\<close>

record config =
  chalice_stage :: string
  user_provided_params :: "string \<rightharpoonup> pyval"
  config_from_disk :: pyval
  default_params :: "string \<rightharpoonup> pyval"

text \<open>The dict \<open>user_provided_params\<close> as \<open>create_config_obj\<close> fills it.\<close>

definition build_user_provided_params ::
  "cli_factory \<Rightarrow> pyval \<Rightarrow> bool option \<Rightarrow> string option \<Rightarrow> (string \<rightharpoonup> pyval)" where
  "build_user_provided_params self app_obj autogen_policy api_gateway_stage =
     (let p0 = Map.empty(''chalice_app'' \<mapsto> app_obj);
          p1 = (case autogen_policy of None \<Rightarrow> p0 | Some b \<Rightarrow> p0(''autogen_policy'' \<mapsto> PBool b));
          p2 = (case profile self of None \<Rightarrow> p1 | Some p \<Rightarrow> p1(''profile'' \<mapsto> PStr p))
      in (case api_gateway_stage of None \<Rightarrow> p2 | Some s \<Rightarrow> p2(''api_gateway_stage'' \<mapsto> PStr s)))"

definition build_default_params :: "cli_factory \<Rightarrow> (string \<rightharpoonup> pyval)" where
  "build_default_params self =
     Map.empty(''project_dir'' \<mapsto> PStr (project_dir self), ''autogen_policy'' \<mapsto> PBool True)"

text \<open>\<open>create_config_obj\<close>.\<close>

definition create_config_obj ::
  "cli_factory \<Rightarrow> environment \<Rightarrow> process \<Rightarrow> string \<Rightarrow> bool option \<Rightarrow> string option \<Rightarrow>
   process \<times> (pyexc + config)" where
  "create_config_obj self env st chalice_stage_name autogen_policy api_gateway_stage =
     (case load_project_config self env st of
        (st1, Inl OSError) \<Rightarrow>
          (st1, Inl (RuntimeError (''Unable to load the project config file. '' @
                                   ''Are you sure this is a chalice project?'')))
      | (st1, Inl e) \<Rightarrow> (st1, Inl e)
      | (st1, Inr disk) \<Rightarrow>
          (case validate_config_from_disk disk of
             Inl e \<Rightarrow> (st1, Inl e)
           | Inr _ \<Rightarrow>
               (case load_chalice_app self env st1 of
                  (st2, Inl e) \<Rightarrow> (st2, Inl e)
                | (st2, Inr app_obj) \<Rightarrow>
                    (st2\<lparr>actions := actions st2 @ [ConstructConfig]\<rparr>,
                     Inr \<lparr>chalice_stage = chalice_stage_name,
                          user_provided_params =
                            build_user_provided_params self app_obj autogen_policy api_gateway_stage,
                          config_from_disk = disk,
                          default_params = build_default_params self\<rparr>))))"

section \<open>\<open>create_botocore_session\<close>\<close>

text \<open>
  The fields of a botocore session that the code reads or writes, and whether
  \<open>set_debug_logger\<close> has been called on it.
\<close>

record session =
  session_profile :: "string option"
  user_agent_name :: string
  user_agent_version :: string
  user_agent_extra :: string
  debug_logger_set :: bool

text \<open>\<open>_add_chalice_user_agent\<close>; \<open>chalice_version\<close> is the package's \<open>__version__\<close>.\<close>

definition add_chalice_user_agent :: "string \<Rightarrow> session \<Rightarrow> session" where
  "add_chalice_user_agent chalice_version s =
     (let suffix = user_agent_name s @ ''/'' @ user_agent_version s
      in s\<lparr>user_agent_name := ''aws-chalice'',
            user_agent_version := chalice_version,
            user_agent_extra := suffix\<rparr>)"

text \<open>
  \<open>_inject_large_request_body_filter\<close>: the state is the number of filters on the
  logger \<open>botocore.endpoint\<close>, to which a new \<open>LargeRequestBodyFilter\<close> is added.
\<close>

definition inject_large_request_body_filter :: "nat \<Rightarrow> nat" where
  "inject_large_request_body_filter endpoint_filters = endpoint_filters + 1"

text \<open>
  \<open>create_botocore_session\<close>. \<open>Session\<close> is botocore's constructor, taken as a
  parameter.
\<close>

definition create_botocore_session ::
  "(string option \<Rightarrow> session) \<Rightarrow> string \<Rightarrow> nat \<Rightarrow> string option \<Rightarrow> bool \<Rightarrow> session \<times> nat" where
  "create_botocore_session Session chalice_version endpoint_filters prof dbg =
     (let s = add_chalice_user_agent chalice_version (Session prof)
      in if dbg
         then (s\<lparr>debug_logger_set := True\<rparr>, inject_large_request_body_filter endpoint_filters)
         else (s, endpoint_filters))"

section \<open>Example surroundings\<close>

text \<open>
  Surroundings for the concrete evaluations below: a file system given by the list of
  its directories and by the outcome of reading each of its JSON files (a path that is
  not listed cannot be opened), and an import with the same outcome under every search
  path.
\<close>

definition dirs_of :: "string list \<Rightarrow> string \<Rightarrow> bool" where
  "dirs_of ds p = (p \<in> set ds)"

definition example_env ::
  "string list \<Rightarrow> (string \<times> (pyexc + pyval)) list \<Rightarrow> (pyexc + pyval) \<Rightarrow> environment" where
  "example_env ds files imported =
     \<lparr>isdir = dirs_of ds,
      read_json = (\<lambda>p. case map_of files p of None \<Rightarrow> Inl OSError | Some r \<Rightarrow> r),
      import_module = (\<lambda>path module_name. imported)\<rparr>"

section \<open>Properties of \<open>LargeRequestBodyFilter.filter\<close>\<close>

lemma filter_record_returns:
  "filter_returns r \<Longrightarrow>
     filter_record r =
        Inr (if has_prefix r \<and> names_lambda_operation r
             then r\<lparr>args := butlast (args r) @ [PStr placeholder]\<rparr> else r, True)"
  by (auto simp: filter_record_def filter_returns_def has_prefix_def names_lambda_operation_def
        operation_name_def split: sum.splits bool.splits)

lemma filter_record_raises:
  "\<not> filter_returns r \<Longrightarrow> \<exists>e. filter_record r = Inl e"
  by (auto simp: filter_record_def filter_returns_def operation_name_def
        split: sum.splits bool.splits)

lemma operation_name_redacted:
  "args r = a0 # a1 # rest \<Longrightarrow>
   operation_name (r\<lparr>args := butlast (args r) @ [x]\<rparr>) = operation_name r"
  by (simp add: operation_name_def index0_def)

lemma filter_twice_same:
  assumes "\<not> (has_prefix r \<and> names_lambda_operation r \<and> length (args r) = 1)"
  shows "filter_twice r = filter_record r"
proof (cases "filter_returns r")
  case False
  then show ?thesis
    using filter_record_raises [of r] by (auto simp: filter_twice_def)
next
  case ret: True
  show ?thesis
  proof (cases "has_prefix r \<and> names_lambda_operation r")
    case False
    then have "filter_record r = Inr (r, True)"
      using ret filter_record_returns [of r] by auto
    then show ?thesis by (simp add: filter_twice_def)
  next
    case True
    let ?r' = "r\<lparr>args := butlast (args r) @ [PStr placeholder]\<rparr>"
    have "args r \<noteq> []"
      using True by (auto simp: names_lambda_operation_def operation_name_def index0_def)
    with True assms obtain a0 a1 rest where a: "args r = a0 # a1 # rest"
      by (cases "args r"; cases "tl (args r)") auto
    have 1: "filter_record r = Inr (?r', True)"
      using True ret filter_record_returns [of r] by simp
    have n: "operation_name ?r' = operation_name r"
      using a by (rule operation_name_redacted)
    have "filter_returns ?r'" "has_prefix ?r'" "names_lambda_operation ?r'"
      using True ret n by (simp_all add: filter_returns_def has_prefix_def names_lambda_operation_def)
    then have 2: "filter_record ?r' = Inr (?r'\<lparr>args := butlast (args ?r') @ [PStr placeholder]\<rparr>, True)"
      using filter_record_returns [of ?r'] by simp
    show ?thesis
      unfolding filter_twice_def 1 using 2 by simp
  qed
qed

text \<open>
  Claim C5, as the code has it. The filter never answers anything but "keep": whenever it
  returns, the boolean is True. On every record for which \<open>filter_returns\<close> holds (the
  message is a str and, when it has the prefix, \<open>record.args[0].name\<close> can be
  evaluated) it does return; there a record whose message has the prefix and whose first
  argument names \<open>UpdateFunctionCode\<close> or \<open>CreateFunction\<close> gets its last positional
  argument replaced by the placeholder, and every other record is handed back as it was.
\<close>

theorem filter_record_rule:
  "(\<forall>r' b. filter_record r = Inr (r', b) \<longrightarrow> b) \<and>
   (filter_returns r \<longrightarrow>
      filter_record r =
        Inr (if has_prefix r \<and> names_lambda_operation r
             then r\<lparr>args := butlast (args r) @ [PStr placeholder]\<rparr> else r, True))"
proof (cases "filter_returns r")
  case True
  then show ?thesis using filter_record_returns [of r] by auto
next
  case False
  then show ?thesis using filter_record_raises [of r] by auto
qed

text \<open>
  The rule of C5 at botocore's own record: the operation model of \<open>CreateFunction\<close>
  followed by the request body.
\<close>

theorem filter_record_rule_witness:
  "filter_returns \<lparr>msg = PStr ''Making request for op'',
                    args = [PObj [(''name'', PStr ''CreateFunction'')], PStr ''UEsDBBQAAAAI''],
                    logger_name = ''botocore.endpoint'', levelno = 10\<rparr> \<and>
   filter_record \<lparr>msg = PStr ''Making request for op'',
                    args = [PObj [(''name'', PStr ''CreateFunction'')], PStr ''UEsDBBQAAAAI''],
                    logger_name = ''botocore.endpoint'', levelno = 10\<rparr> =
     Inr (\<lparr>msg = PStr ''Making request for op'',
           args = [PObj [(''name'', PStr ''CreateFunction'')],
                   PStr ''(... omitted from logs due to size ...)''],
           logger_name = ''botocore.endpoint'', levelno = 10\<rparr>, True)"
  using filter_record_rule [of "\<lparr>msg = PStr ''Making request for op'',
                    args = [PObj [(''name'', PStr ''CreateFunction'')], PStr ''UEsDBBQAAAAI''],
                    logger_name = ''botocore.endpoint'', levelno = 10\<rparr>"]
  by (simp add: filter_returns_def has_prefix_def names_lambda_operation_def placeholder_def
        operation_name_def startswith_def index0_def getattr_def)

text \<open>
  C5 as stated ("for every log record ... always returns keep") fails on a record whose
  message has the prefix and whose argument tuple is empty: \<open>record.args[0]\<close> raises
  \<open>IndexError\<close> and nothing is returned.
\<close>

theorem filter_record_empty_args_counterexample:
  "filter_record \<lparr>msg = PStr ''Making request'', args = [],
                   logger_name = ''botocore.endpoint'', levelno = 10\<rparr> = Inl IndexError"
  by (simp add: filter_record_def startswith_def index0_def)

text \<open>
  Claim C9, as the code has it. Whenever the filter returns, the record it leaves differs
  from the one it was given in \<open>args\<close> at most; the tuple keeps its length and every
  position before the last keeps its value. Applying the filter a second time gives the
  same outcome as applying it once for every record that does not have exactly one
  positional argument.
\<close>

theorem filter_record_frame:
  assumes "filter_record r = Inr (r', b)"
  shows "r' = r\<lparr>args := args r'\<rparr> \<and>
         length (args r') = length (args r) \<and>
         (\<forall>i. i + 1 < length (args r) \<longrightarrow> args r' ! i = args r ! i) \<and>
         (length (args r) \<noteq> 1 \<longrightarrow> filter_twice r = filter_record r)"
proof -
  have ret: "filter_returns r"
    using assms filter_record_raises [of r] by auto
  have "r' = r \<or> (args r \<noteq> [] \<and> r' = r\<lparr>args := butlast (args r) @ [PStr placeholder]\<rparr>)"
    using assms filter_record_returns [OF ret]
    by (auto simp: names_lambda_operation_def operation_name_def index0_def split: if_splits)
  then have "r' = r\<lparr>args := args r'\<rparr> \<and> length (args r') = length (args r) \<and>
         (\<forall>i. i + 1 < length (args r) \<longrightarrow> args r' ! i = args r ! i)"
    by (auto simp: nth_append nth_butlast)
  moreover have "length (args r) \<noteq> 1 \<longrightarrow> filter_twice r = filter_record r"
    using filter_twice_same [of r] by blast
  ultimately show ?thesis by blast
qed

text \<open>The frame property of C9 at a record with three positional arguments.\<close>

theorem filter_record_frame_witness:
  "filter_record \<lparr>msg = PStr ''Making request for op'',
                   args = [PObj [(''name'', PStr ''UpdateFunctionCode'')], PInt 7, PStr ''UEsDB''],
                   logger_name = ''botocore.endpoint'', levelno = 10\<rparr> =
     Inr (\<lparr>msg = PStr ''Making request for op'',
           args = [PObj [(''name'', PStr ''UpdateFunctionCode'')], PInt 7, PStr placeholder],
           logger_name = ''botocore.endpoint'', levelno = 10\<rparr>, True) \<and>
   filter_twice \<lparr>msg = PStr ''Making request for op'',
                  args = [PObj [(''name'', PStr ''UpdateFunctionCode'')], PInt 7, PStr ''UEsDB''],
                  logger_name = ''botocore.endpoint'', levelno = 10\<rparr> =
     Inr (\<lparr>msg = PStr ''Making request for op'',
           args = [PObj [(''name'', PStr ''UpdateFunctionCode'')], PInt 7, PStr placeholder],
           logger_name = ''botocore.endpoint'', levelno = 10\<rparr>, True)"
proof -
  let ?r = "\<lparr>msg = PStr ''Making request for op'',
             args = [PObj [(''name'', PStr ''UpdateFunctionCode'')], PInt 7, PStr ''UEsDB''],
             logger_name = ''botocore.endpoint'', levelno = 10\<rparr>"
  let ?r' = "\<lparr>msg = PStr ''Making request for op'',
              args = [PObj [(''name'', PStr ''UpdateFunctionCode'')], PInt 7, PStr placeholder],
              logger_name = ''botocore.endpoint'', levelno = 10\<rparr>"
  have h: "filter_record ?r = Inr (?r', True)"
    by (simp add: filter_record_def startswith_def index0_def getattr_def)
  show ?thesis
    using h filter_record_frame [OF h] by simp
qed

text \<open>
  C9 as stated ("applying the filter twice yields the same record as applying it once")
  fails on a record whose only positional argument is the operation model: the first
  application replaces it by the placeholder str, and the second application raises
  \<open>AttributeError\<close> at \<open>.name\<close>.
\<close>

theorem filter_twice_single_arg_counterexample:
  "filter_record \<lparr>msg = PStr ''Making request'',
                   args = [PObj [(''name'', PStr ''CreateFunction'')]],
                   logger_name = ''botocore.endpoint'', levelno = 10\<rparr> =
     Inr (\<lparr>msg = PStr ''Making request'',
           args = [PStr ''(... omitted from logs due to size ...)''],
           logger_name = ''botocore.endpoint'', levelno = 10\<rparr>, True) \<and>
   filter_twice \<lparr>msg = PStr ''Making request'',
                  args = [PObj [(''name'', PStr ''CreateFunction'')]],
                  logger_name = ''botocore.endpoint'', levelno = 10\<rparr> = Inl AttributeError"
  by (simp add: filter_twice_def filter_record_def startswith_def index0_def getattr_def
        placeholder_def)

section \<open>Properties of the search-path adjustment\<close>

lemma vendor_dir_neq: "path_join pd ''vendor'' \<noteq> pd"
  by (simp add: path_join_def)

lemma adjust_sys_path_idem:
  "adjust_sys_path is_dir pd (adjust_sys_path is_dir pd path) = adjust_sys_path is_dir pd path"
  by (simp add: adjust_sys_path_def Let_def)

lemma adjust_sys_path_fresh:
  assumes "pd \<notin> set path" and "path_join pd ''vendor'' \<notin> set path"
  shows "adjust_sys_path is_dir pd path =
           pd # path @ (if is_dir (path_join pd ''vendor'') then [path_join pd ''vendor''] else [])"
  using assms vendor_dir_neq [of pd] by (simp add: adjust_sys_path_def Let_def)

lemma count_list_adjust_pd:
  "count_list (adjust_sys_path is_dir pd path) pd = max 1 (count_list path pd)"
proof -
  have "pd \<in> set path \<Longrightarrow> 1 \<le> count_list path pd"
    using count_list_0_iff [of path pd] by (cases "count_list path pd") auto
  moreover have "pd \<notin> set path \<Longrightarrow> count_list path pd = 0"
    by (simp add: count_list_0_iff)
  ultimately show ?thesis
    using vendor_dir_neq [of pd] by (auto simp: adjust_sys_path_def Let_def max_def)
qed

lemma count_list_adjust_vendor:
  "count_list (adjust_sys_path is_dir pd path) (path_join pd ''vendor'') =
     (if is_dir (path_join pd ''vendor'')
      then max 1 (count_list path (path_join pd ''vendor''))
      else count_list path (path_join pd ''vendor''))"
proof -
  let ?v = "path_join pd ''vendor''"
  have "?v \<in> set path \<Longrightarrow> 1 \<le> count_list path ?v"
    using count_list_0_iff [of path ?v] by (cases "count_list path ?v") auto
  moreover have "?v \<notin> set path \<Longrightarrow> count_list path ?v = 0"
    by (simp add: count_list_0_iff)
  ultimately show ?thesis
    using vendor_dir_neq [of pd] by (auto simp: adjust_sys_path_def Let_def max_def)
qed

text \<open>
  Claim C3, as the code has it. For every initial search path the second adjustment
  changes nothing, and the adjustment adds the project root only when it is absent and
  the vendor directory only when it is a directory and absent, so neither is ever
  duplicated. When the initial path contains neither of the two, the adjusted path is the
  project root, then the initial entries, then the vendor directory if it exists: the
  root exactly once at the front, the vendor directory exactly once after every
  pre-existing entry.
\<close>

theorem adjust_sys_path_twice:
  "adjust_sys_path is_dir pd (adjust_sys_path is_dir pd path) = adjust_sys_path is_dir pd path \<and>
   count_list (adjust_sys_path is_dir pd path) pd = max 1 (count_list path pd) \<and>
   count_list (adjust_sys_path is_dir pd path) (path_join pd ''vendor'') =
     (if is_dir (path_join pd ''vendor'')
      then max 1 (count_list path (path_join pd ''vendor''))
      else count_list path (path_join pd ''vendor'')) \<and>
   (pd \<notin> set path \<and> path_join pd ''vendor'' \<notin> set path \<longrightarrow>
      adjust_sys_path is_dir pd (adjust_sys_path is_dir pd path) =
        pd # path @ (if is_dir (path_join pd ''vendor'') then [path_join pd ''vendor''] else []))"
proof -
  have "adjust_sys_path is_dir pd (adjust_sys_path is_dir pd path) =
          pd # path @ (if is_dir (path_join pd ''vendor'') then [path_join pd ''vendor''] else [])"
    if "pd \<notin> set path \<and> path_join pd ''vendor'' \<notin> set path"
  proof -
    have "adjust_sys_path is_dir pd (adjust_sys_path is_dir pd path) =
            adjust_sys_path is_dir pd path"
      by (rule adjust_sys_path_idem)
    also have "\<dots> = pd # path @
        (if is_dir (path_join pd ''vendor'') then [path_join pd ''vendor''] else [])"
      using that by (intro adjust_sys_path_fresh) simp_all
    finally show ?thesis .
  qed
  then show ?thesis
    using adjust_sys_path_idem [of is_dir pd path]
      count_list_adjust_pd [of is_dir pd path] count_list_adjust_vendor [of is_dir pd path]
    by blast
qed

text \<open>C3 at a project with a vendor directory and a search path that has neither entry.\<close>

theorem adjust_sys_path_twice_witness:
  "''/proj'' \<notin> set [''/usr/lib/python3'', ''/site-packages''] \<and>
   path_join ''/proj'' ''vendor'' \<notin> set [''/usr/lib/python3'', ''/site-packages''] \<and>
   adjust_sys_path (dirs_of [''/proj/vendor'']) ''/proj''
     (adjust_sys_path (dirs_of [''/proj/vendor'']) ''/proj''
        [''/usr/lib/python3'', ''/site-packages'']) =
     [''/proj'', ''/usr/lib/python3'', ''/site-packages'', ''/proj/vendor'']"
  using adjust_sys_path_twice [of "dirs_of [''/proj/vendor'']" "''/proj''"
      "[''/usr/lib/python3'', ''/site-packages'']"]
  by (simp add: adjust_sys_path_def path_join_def dirs_of_def)

text \<open>
  C3 as stated ("for every initial module search path ... at the front") fails when the
  project root is already on the path behind another entry: the guard
  \<open>project_dir not in sys.path\<close> leaves it where it is.
\<close>

theorem adjust_sys_path_not_front_counterexample:
  "adjust_sys_path (dirs_of []) ''/proj''
     (adjust_sys_path (dirs_of []) ''/proj'' [''/usr/lib/python3'', ''/proj'']) =
     [''/usr/lib/python3'', ''/proj'']"
  by (simp add: adjust_sys_path_def path_join_def dirs_of_def)

section \<open>Properties of \<open>create_botocore_session\<close>\<close>

text \<open>
  Claim C6. For every profile and every debug flag, the session that
  \<open>create_botocore_session\<close> returns has the user-agent name \<open>aws-chalice\<close>, the
  user-agent version of the chalice release, and as user-agent extra the name and the
  version the SDK's constructor had set, joined by a slash.
\<close>

theorem create_botocore_session_user_agent:
  "user_agent_name (fst (create_botocore_session Session chalice_version n prof dbg)) =
     ''aws-chalice'' \<and>
   user_agent_version (fst (create_botocore_session Session chalice_version n prof dbg)) =
     chalice_version \<and>
   user_agent_extra (fst (create_botocore_session Session chalice_version n prof dbg)) =
     user_agent_name (Session prof) @ ''/'' @ user_agent_version (Session prof)"
  by (simp add: create_botocore_session_def add_chalice_user_agent_def Let_def)

section \<open>Properties of \<open>load_chalice_app\<close>\<close>

lemma sublist_mid: "sublist x (a @ x @ b)"
  by (auto simp: sublist_def)

lemma syntax_error_message_parts:
  "sublist (str_or_none filename) (syntax_error_message filename lineno etext emsg)"
  "sublist (int_or_none lineno) (syntax_error_message filename lineno etext emsg)"
  "sublist (str_or_none etext) (syntax_error_message filename lineno etext emsg)"
  "sublist (str_or_none emsg) (syntax_error_message filename lineno etext emsg)"
proof -
  let ?m = "syntax_error_message filename lineno etext emsg"
  have "?m = (''Unable to import your app.py file:'' @ [CHR 0x0A, CHR 0x0A] @ ''File '' @ [CHR 0x22])
            @ str_or_none filename
            @ ([CHR 0x22] @ '', line '' @ int_or_none lineno @ [CHR 0x0A] @ ''  '' @
               str_or_none etext @ [CHR 0x0A] @ ''SyntaxError: '' @ str_or_none emsg)"
    by (simp add: syntax_error_message_def)
  then show "sublist (str_or_none filename) ?m" by (metis sublist_mid)
  have "?m = (''Unable to import your app.py file:'' @ [CHR 0x0A, CHR 0x0A] @ ''File '' @ [CHR 0x22]
              @ str_or_none filename @ [CHR 0x22] @ '', line '')
            @ int_or_none lineno
            @ ([CHR 0x0A] @ ''  '' @ str_or_none etext @ [CHR 0x0A] @ ''SyntaxError: '' @
               str_or_none emsg)"
    by (simp add: syntax_error_message_def)
  then show "sublist (int_or_none lineno) ?m" by (metis sublist_mid)
  have "?m = (''Unable to import your app.py file:'' @ [CHR 0x0A, CHR 0x0A] @ ''File '' @ [CHR 0x22]
              @ str_or_none filename @ [CHR 0x22] @ '', line '' @ int_or_none lineno @
              [CHR 0x0A] @ ''  '')
            @ str_or_none etext
            @ ([CHR 0x0A] @ ''SyntaxError: '' @ str_or_none emsg)"
    by (simp add: syntax_error_message_def)
  then show "sublist (str_or_none etext) ?m" by (metis sublist_mid)
  have "?m = (''Unable to import your app.py file:'' @ [CHR 0x0A, CHR 0x0A] @ ''File '' @ [CHR 0x22]
              @ str_or_none filename @ [CHR 0x22] @ '', line '' @ int_or_none lineno @
              [CHR 0x0A] @ ''  '' @ str_or_none etext @ [CHR 0x0A] @ ''SyntaxError: '')
            @ str_or_none emsg @ []"
    by (simp add: syntax_error_message_def)
  then show "sublist (str_or_none emsg) ?m" by (metis sublist_mid)
qed

lemma load_chalice_app_syntax_error:
  assumes "import_module env (adjust_sys_path (isdir env) (project_dir self) (sys_path st)) ''app'' =
             Inl (SyntaxError filename lineno etext emsg)"
  shows "snd (load_chalice_app self env st) =
           Inl (RuntimeError (syntax_error_message filename lineno etext emsg))"
  using assms by (simp add: load_chalice_app_def Let_def)

lemma getattr_error: "getattr v a = Inl e \<Longrightarrow> e = AttributeError"
  by (cases v) (auto simp: getattr_def split: option.splits)

lemma load_chalice_app_other:
  assumes "\<forall>f l t m. import_module env (adjust_sys_path (isdir env) (project_dir self) (sys_path st))
             ''app'' \<noteq> Inl (SyntaxError f l t m)"
  shows "snd (load_chalice_app self env st) =
           (case import_module env (adjust_sys_path (isdir env) (project_dir self) (sys_path st)) ''app'' of
              Inl e \<Rightarrow> Inl e
            | Inr app \<Rightarrow> getattr app ''app'')"
proof (cases "import_module env (adjust_sys_path (isdir env) (project_dir self) (sys_path st)) ''app''")
  case (Inl e)
  with assms have "\<forall>f l t m. e \<noteq> SyntaxError f l t m" by simp
  then show ?thesis
    using Inl by (cases e) (simp_all add: load_chalice_app_def Let_def)
next
  case (Inr app)
  show ?thesis
  proof (cases "getattr app ''app''")
    case (Inl e)
    then have "e = AttributeError" by (rule getattr_error)
    then show ?thesis using Inl Inr by (simp add: load_chalice_app_def Let_def)
  next
    case (Inr a)
    then show ?thesis using \<open>import_module _ _ _ = Inr app\<close> by (simp add: load_chalice_app_def Let_def)
  qed
qed

text \<open>
  Claim C4. When the import of \<open>app\<close> raises a \<open>SyntaxError\<close>, \<open>load_chalice_app\<close>
  fails with the \<open>RuntimeError\<close> whose message is built from the exception, and that
  message contains the file name, the line number, the source text and the description
  as \<open>%s\<close> renders them. In every other case nothing is translated: the outcome is the
  exception the import raised, or what \<open>getattr(app, 'app')\<close> gives, which is the
  application or the \<open>AttributeError\<close> of a missing symbol.
\<close>

theorem load_chalice_app_translation:
  "(import_module env (adjust_sys_path (isdir env) (project_dir self) (sys_path st)) ''app'' =
      Inl (SyntaxError filename lineno etext emsg) \<longrightarrow>
    snd (load_chalice_app self env st) =
      Inl (RuntimeError (syntax_error_message filename lineno etext emsg)) \<and>
    sublist (str_or_none filename) (syntax_error_message filename lineno etext emsg) \<and>
    sublist (int_or_none lineno) (syntax_error_message filename lineno etext emsg) \<and>
    sublist (str_or_none etext) (syntax_error_message filename lineno etext emsg) \<and>
    sublist (str_or_none emsg) (syntax_error_message filename lineno etext emsg)) \<and>
   ((\<forall>f l t m. import_module env (adjust_sys_path (isdir env) (project_dir self) (sys_path st))
        ''app'' \<noteq> Inl (SyntaxError f l t m)) \<longrightarrow>
    snd (load_chalice_app self env st) =
      (case import_module env (adjust_sys_path (isdir env) (project_dir self) (sys_path st)) ''app'' of
         Inl e \<Rightarrow> Inl e
       | Inr app \<Rightarrow> getattr app ''app''))"
  using load_chalice_app_syntax_error [of env self st filename lineno etext emsg]
    load_chalice_app_other [of env self st]
    syntax_error_message_parts
  by blast

text \<open>
  C4 at an \<open>app.py\<close> with a syntax error on line 5, and at an import that fails for
  another reason.
\<close>

theorem load_chalice_app_translation_witness:
  "snd (load_chalice_app \<lparr>project_dir = ''/proj'', debug = False, profile = None\<rparr>
          (example_env [] []
             (Inl (SyntaxError (Some ''/proj/app.py'') (Some 5) (Some ''def index(:'')
                     (Some ''invalid syntax''))))
          \<lparr>sys_path = [], actions = []\<rparr>) =
     Inl (RuntimeError
            (''Unable to import your app.py file:'' @ [CHR 0x0A, CHR 0x0A] @
             ''File '' @ [CHR 0x22] @ ''/proj/app.py'' @ [CHR 0x22] @ '', line 5'' @ [CHR 0x0A] @
             ''  def index(:'' @ [CHR 0x0A] @ ''SyntaxError: invalid syntax'')) \<and>
   snd (load_chalice_app \<lparr>project_dir = ''/proj'', debug = False, profile = None\<rparr>
          (example_env [] [] (Inl (OtherException ''ImportError: No module named boto4'')))
          \<lparr>sys_path = [], actions = []\<rparr>) =
     Inl (OtherException ''ImportError: No module named boto4'')"
proof -
  let ?self = "\<lparr>project_dir = ''/proj'', debug = False, profile = None\<rparr>"
  let ?st = "\<lparr>sys_path = [], actions = []\<rparr>"
  have m: "syntax_error_message (Some ''/proj/app.py'') (Some 5) (Some ''def index(:'')
             (Some ''invalid syntax'') =
           ''Unable to import your app.py file:'' @ [CHR 0x0A, CHR 0x0A] @
           ''File '' @ [CHR 0x22] @ ''/proj/app.py'' @ [CHR 0x22] @ '', line 5'' @ [CHR 0x0A] @
           ''  def index(:'' @ [CHR 0x0A] @ ''SyntaxError: invalid syntax''"
    by (simp add: syntax_error_message_def str_or_none_def int_or_none_def str_int_def
          digit_char_def)
  have 1: "snd (load_chalice_app ?self
          (example_env [] []
             (Inl (SyntaxError (Some ''/proj/app.py'') (Some 5) (Some ''def index(:'')
                     (Some ''invalid syntax'')))) ?st) =
        Inl (RuntimeError (syntax_error_message (Some ''/proj/app.py'') (Some 5)
               (Some ''def index(:'') (Some ''invalid syntax'')))"
    using load_chalice_app_translation [of
        "example_env [] [] (Inl (SyntaxError (Some ''/proj/app.py'') (Some 5)
           (Some ''def index(:'') (Some ''invalid syntax'')))"
        ?self ?st "Some ''/proj/app.py''" "Some 5" "Some ''def index(:''" "Some ''invalid syntax''"]
    by (simp add: example_env_def)
  have 2: "snd (load_chalice_app ?self
          (example_env [] [] (Inl (OtherException ''ImportError: No module named boto4''))) ?st) =
        Inl (OtherException ''ImportError: No module named boto4'')"
    using load_chalice_app_translation [of
        "example_env [] [] (Inl (OtherException ''ImportError: No module named boto4''))"
        ?self ?st]
    by (simp add: example_env_def)
  show ?thesis using 1 2 by (simp only: m)
qed

section \<open>Properties of \<open>float\<close> and of \<open>_validate_config_from_disk\<close>\<close>

lemma floor_log2_bounds:
  assumes "0 < q"
  shows "2 powi (floor_log2 q) \<le> q \<and> q < 2 powi (floor_log2 q + 1)"
proof -
  obtain a b where ab: "quotient_of q = (a, b)" by (cases "quotient_of q")
  have b: "0 < b" using quotient_of_denom_pos [OF ab] .
  have q: "q = of_int a / of_int b" using quotient_of_div [OF ab] .
  have a: "0 < a" using assms b q by (simp add: zero_less_divide_iff)
  define la lb where "la = bitlen a" and "lb = bitlen b"
  have la: "2 ^ nat (la - 1) \<le> a" "a < 2 ^ nat la"
    using bitlen_bounds [OF a] by (simp_all add: la_def)
  have lb: "2 ^ nat (lb - 1) \<le> b" "b < 2 ^ nat lb"
    using bitlen_bounds [OF b] by (simp_all add: lb_def)
  have la1: "1 \<le> la" using a by (simp add: la_def bitlen_alt_def)
  have lb1: "1 \<le> lb" using b by (simp add: lb_def bitlen_alt_def)
  have ra: "(2::rat) powi (la - 1) \<le> of_int a" "(of_int a :: rat) < 2 powi la"
  proof -
    have "(of_int (2 ^ nat (la - 1)) :: rat) \<le> of_int a" using la(1) by (simp only: of_int_le_iff)
    then show "(2::rat) powi (la - 1) \<le> of_int a" using la1 by (simp add: power_int_nonneg_exp)
    have "(of_int a :: rat) < of_int (2 ^ nat la)" using la(2) by (simp only: of_int_less_iff)
    then show "(of_int a :: rat) < 2 powi la" using la1 by (simp add: power_int_nonneg_exp)
  qed
  have rb: "(2::rat) powi (lb - 1) \<le> of_int b" "(of_int b :: rat) < 2 powi lb"
  proof -
    have "(of_int (2 ^ nat (lb - 1)) :: rat) \<le> of_int b" using lb(1) by (simp only: of_int_le_iff)
    then show "(2::rat) powi (lb - 1) \<le> of_int b" using lb1 by (simp add: power_int_nonneg_exp)
    have "(of_int b :: rat) < of_int (2 ^ nat lb)" using lb(2) by (simp only: of_int_less_iff)
    then show "(of_int b :: rat) < 2 powi lb" using lb1 by (simp add: power_int_nonneg_exp)
  qed
  have pos: "(0::rat) < of_int a" "(0::rat) < of_int b" using a b by simp_all
  have up: "q < 2 powi (la - lb + 1)"
  proof -
    have "q < 2 powi la / 2 powi (lb - 1)"
      unfolding q using ra(2) rb(1) pos by (intro frac_less) simp_all
    also have "\<dots> = 2 powi (la - (lb - 1))" by (simp add: power_int_diff)
    finally show ?thesis by (simp add: algebra_simps)
  qed
  have lo: "2 powi (la - lb - 1) \<le> q"
  proof -
    have "(2::rat) powi (la - 1) / 2 powi lb \<le> q"
      unfolding q using ra(1) rb(2) pos by (intro frac_le) simp_all
    moreover have "(2::rat) powi (la - 1) / 2 powi lb = 2 powi (la - 1 - lb)"
      by (simp add: power_int_diff)
    ultimately show ?thesis by (simp add: algebra_simps)
  qed
  have fl: "floor_log2 q = (if 2 powi (la - lb) \<le> q then la - lb else la - lb - 1)"
    by (simp add: floor_log2_def ab la_def lb_def Let_def)
  show ?thesis
    using up lo by (auto simp: fl)
qed

lemma floor_log2_less:
  assumes "0 < q" and "q < 2 powi n"
  shows "floor_log2 q < n"
proof (rule ccontr)
  assume "\<not> floor_log2 q < n"
  then have "(2::rat) powi n \<le> 2 powi (floor_log2 q)"
    by (intro power_int_increasing) simp_all
  with floor_log2_bounds [OF assms(1)] assms(2) show False by simp
qed

lemma floor_log2_ge:
  assumes "0 < q" and "2 powi n \<le> q"
  shows "n \<le> floor_log2 q"
proof (rule ccontr)
  assume "\<not> n \<le> floor_log2 q"
  then have "(2::rat) powi (floor_log2 q + 1) \<le> 2 powi n"
    by (intro power_int_increasing) simp_all
  with floor_log2_bounds [OF assms(1)] assms(2) show False by simp
qed

lemma round_half_even_cases:
  "round_half_even x = \<lfloor>x\<rfloor> \<or> round_half_even x = \<lfloor>x\<rfloor> + 1"
  by (simp add: round_half_even_def Let_def)

lemma round_half_even_ge: "of_int n \<le> x \<Longrightarrow> n \<le> round_half_even x"
proof -
  assume "of_int n \<le> x"
  then have "n \<le> \<lfloor>x\<rfloor>" by (simp add: le_floor_iff)
  then show ?thesis using round_half_even_cases [of x] by auto
qed

lemma round_half_even_le: "x \<le> of_int n \<Longrightarrow> round_half_even x \<le> n"
proof (cases "x = of_int n")
  case True
  then show ?thesis by (simp add: round_half_even_def)
next
  case False
  assume "x \<le> of_int n"
  with False have "x < of_int n" by simp
  then have "\<lfloor>x\<rfloor> < n" by (simp add: floor_less_iff)
  then show ?thesis using round_half_even_cases [of x] by auto
qed

lemma round_half_even_tie_down:
  assumes "even n" and "x \<le> of_int n + 1 / 2"
  shows "round_half_even x \<le> n"
proof (cases "x \<le> of_int n")
  case True
  then show ?thesis by (rule round_half_even_le)
next
  case False
  then have "of_int n < x" by simp
  moreover have "x < of_int n + 1" using assms(2) by simp
  ultimately have f: "\<lfloor>x\<rfloor> = n" by (simp add: floor_eq_iff)
  show ?thesis
    using assms by (simp add: round_half_even_def f Let_def)
qed

lemma round_half_even_up:
  assumes "of_int n + 1 / 2 < x"
  shows "n + 1 \<le> round_half_even x"
proof (cases "of_int (n + 1) \<le> x")
  case True
  then show ?thesis by (rule round_half_even_ge)
next
  case False
  then have "x < of_int n + 1" by simp
  moreover have "of_int n \<le> x" using assms by simp
  ultimately have f: "\<lfloor>x\<rfloor> = n" by (simp add: floor_eq_iff)
  show ?thesis
    using assms by (simp add: round_half_even_def f Let_def)
qed

lemma round_double_unfold:
  assumes "q \<noteq> 0"
  defines "u \<equiv> 2 powi (max (floor_log2 \<bar>q\<bar>) (- 1022) - 52)"
  defines "r \<equiv> of_int (round_half_even (q / u)) * u"
  shows "round_double q =
           (if 2 powi 1024 \<le> \<bar>r\<bar> then (if 0 < q then PosInf else NegInf) else Finite r)"
  using assms(1) unfolding round_double_def Let_def u_def r_def by simp

lemma gt_2_round_double_neg:
  assumes "q < 0"
  shows "\<not> gt_2 (round_double q)"
proof -
  define u :: rat where "u = 2 powi (max (floor_log2 \<bar>q\<bar>) (- 1022) - 52)"
  define r :: rat where "r = of_int (round_half_even (q / u)) * u"
  have u: "0 < u" by (simp add: u_def)
  have "q / u \<le> of_int 0" using assms u by (simp add: divide_le_0_iff)
  then have "round_half_even (q / u) \<le> 0" by (rule round_half_even_le)
  then have "r \<le> 0" using u by (simp add: r_def mult_le_0_iff)
  moreover have "round_double q = (if 2 powi 1024 \<le> \<bar>r\<bar> then NegInf else Finite r)"
    using round_double_unfold [of q] assms by (simp add: u_def r_def)
  ultimately show ?thesis by (simp add: gt_2_def)
qed

lemma gt_2_round_double_small:
  assumes "0 < q" and "q < 2"
  shows "\<not> gt_2 (round_double q)"
proof -
  define e where "e = max (floor_log2 \<bar>q\<bar>) (- 1022)"
  define u :: rat where "u = 2 powi (e - 52)"
  define r :: rat where "r = of_int (round_half_even (q / u)) * u"
  have u: "0 < u" by (simp add: u_def)
  have "floor_log2 q < 1" using assms by (intro floor_log2_less) simp_all
  then have e: "e \<le> 0" using assms by (simp add: e_def)
  define N :: int where "N = 2 ^ nat (53 - e)"
  have N: "(of_int N :: rat) = 2 powi (53 - e)"
    using e by (simp add: N_def power_int_nonneg_exp)
  have Nu: "of_int N * u = 2"
  proof -
    have "of_int N * u = 2 powi ((53 - e) + (e - 52))"
      unfolding N u_def by (subst power_int_add) simp_all
    then show ?thesis by simp
  qed
  have "q / u \<le> of_int N"
    using assms u Nu by (simp add: pos_divide_le_eq)
  then have "round_half_even (q / u) \<le> N" by (rule round_half_even_le)
  then have "r \<le> of_int N * u" using u by (simp add: r_def)
  then have r2: "r \<le> 2" using Nu by simp
  have "of_int 0 \<le> q / u" using assms u by simp
  then have "0 \<le> round_half_even (q / u)" by (rule round_half_even_ge)
  then have r0: "0 \<le> r" using u by (simp add: r_def)
  have "\<bar>r\<bar> < 2 powi 1024" using r0 r2 by simp
  moreover have "round_double q =
      (if 2 powi 1024 \<le> \<bar>r\<bar> then (if 0 < q then PosInf else NegInf) else Finite r)"
    using round_double_unfold [of q] assms by (simp add: u_def r_def e_def)
  ultimately show ?thesis using r2 by (simp add: gt_2_def)
qed

lemma gt_2_round_double_binade:
  assumes "2 \<le> q" and "q < 4"
  shows "gt_2 (round_double q) \<longleftrightarrow> 2 + 1 / 2 ^ 52 < q"
proof -
  have q0: "0 < q" using assms by simp
  have "floor_log2 q < 2" using q0 assms by (intro floor_log2_less) simp_all
  moreover have "1 \<le> floor_log2 q" using q0 assms by (intro floor_log2_ge) simp_all
  ultimately have fl: "floor_log2 q = 1" by simp
  define x :: rat where "x = q * 2 ^ 51"
  define r :: rat where "r = of_int (round_half_even x) / 2 ^ 51"
  have "of_int (2 ^ 52) \<le> x" using assms by (simp add: x_def)
  then have lo: "2 ^ 52 \<le> round_half_even x" by (rule round_half_even_ge)
  have "x \<le> of_int (2 ^ 53)" using assms by (simp add: x_def)
  then have hi: "round_half_even x \<le> 2 ^ 53" by (rule round_half_even_le)
  have r4: "r \<le> 4" and r0: "0 \<le> r"
    using hi lo by (simp_all add: r_def pos_divide_le_eq)
  have rd: "round_double q = Finite r"
    using round_double_unfold [of q] q0 r4 r0
    by (simp add: fl r_def x_def power_int_minus_divide abs_if)
  show ?thesis
  proof (cases "2 + 1 / 2 ^ 52 < q")
    case True
    then have "of_int (2 ^ 52) + 1 / 2 < x" by (simp add: x_def)
    then have "2 ^ 52 + 1 \<le> round_half_even x" by (rule round_half_even_up)
    then have "2 < r" by (simp add: r_def pos_less_divide_eq)
    with True show ?thesis by (simp add: rd gt_2_def)
  next
    case False
    then have "x \<le> of_int (2 ^ 52) + 1 / 2" by (simp add: x_def)
    moreover have "even ((2::int) ^ 52)" by simp
    ultimately have "round_half_even x \<le> 2 ^ 52" by (intro round_half_even_tie_down)
    then have "r \<le> 2" by (simp add: r_def pos_divide_le_eq)
    with False show ?thesis by (simp add: rd gt_2_def)
  qed
qed

lemma gt_2_round_double_large:
  assumes "4 \<le> q"
  shows "gt_2 (round_double q)"
proof -
  have q0: "0 < q" using assms by simp
  define e where "e = floor_log2 q"
  have e2: "2 \<le> e" unfolding e_def using q0 assms by (intro floor_log2_ge) simp_all
  define u :: rat where "u = 2 powi (e - 52)"
  define r :: rat where "r = of_int (round_half_even (q / u)) * u"
  have u: "0 < u" by (simp add: u_def)
  have pe: "(2::rat) powi e \<le> q" using floor_log2_bounds [OF q0] by (simp add: e_def)
  have "(2::rat) powi e = 2 ^ 52 * u"
  proof -
    have "(2::rat) ^ 52 * u = 2 powi (52 + (e - 52))"
      unfolding u_def by (subst power_int_add) simp_all
    then show ?thesis by simp
  qed
  with pe have "of_int (2 ^ 52) \<le> q / u" using u by (simp add: pos_le_divide_eq)
  then have "2 ^ 52 \<le> round_half_even (q / u)" by (rule round_half_even_ge)
  then have "(of_int (2 ^ 52) :: rat) \<le> of_int (round_half_even (q / u))"
    by (simp only: of_int_le_iff)
  then have "of_int (2 ^ 52) * u \<le> r" using u by (simp add: r_def)
  moreover have "(4::rat) \<le> 2 powi e"
    using power_int_increasing [of 2 e "2::rat"] e2 by simp
  ultimately have r: "4 \<le> r" using \<open>(2::rat) powi e = 2 ^ 52 * u\<close> by simp
  have "round_double q =
      (if 2 powi 1024 \<le> \<bar>r\<bar> then (if 0 < q then PosInf else NegInf) else Finite r)"
    using round_double_unfold [of q] q0 e2 by (simp add: u_def r_def e_def max_def)
  then show ?thesis using r q0 by (simp add: gt_2_def)
qed

lemma gt_2_round_double: "gt_2 (round_double q) \<longleftrightarrow> 2 + 1 / 2 ^ 52 < q"
proof -
  consider "q < 0" | "q = 0" | "0 < q" "q < 2" | "2 \<le> q" "q < 4" | "4 \<le> q" by linarith
  then show ?thesis
  proof cases
    case 1
    then show ?thesis using gt_2_round_double_neg [of q] by simp
  next
    case 2
    then show ?thesis by (simp add: round_double_def gt_2_def)
  next
    case 3
    then show ?thesis using gt_2_round_double_small [of q] by simp
  next
    case 4
    then show ?thesis by (rule gt_2_round_double_binade)
  next
    case 5
    then show ?thesis using gt_2_round_double_large [of q] by simp
  qed
qed

lemma gt_2_float_of_literal:
  "gt_2 (float_of_literal l) \<longleftrightarrow>
     (case l of LitInf neg \<Rightarrow> \<not> neg | LitNaN \<Rightarrow> False | LitDecimal q \<Rightarrow> 2 + 1 / 2 ^ 52 < q)"
  by (cases l) (simp_all add: float_of_literal_def gt_2_round_double, simp_all add: gt_2_def)

lemma validate_version_text:
  assumes "map_of kvs ''version'' = Some (PStr s)" and "\<not> is_nan_text s"
  shows "validate_config_from_disk (PDict kvs) =
           (if version_text_accepted s then Inr () else Inl (UnknownConfigFileVersion (PStr s)))"
proof (cases "parse_float_literal s")
  case None
  then show ?thesis
    using assms
    by (simp add: validate_config_from_disk_def dict_get_def py_float_def float_of_string_def
          version_text_accepted_def)
next
  case (Some l)
  then show ?thesis
    using assms gt_2_float_of_literal [of l]
    by (cases l)
      (auto simp: validate_config_from_disk_def dict_get_def py_float_def float_of_string_def
          version_text_accepted_def is_nan_text_def)
qed

lemma validate_version_nan:
  assumes "map_of kvs ''version'' = Some (PStr s)" and "is_nan_text s"
  shows "validate_config_from_disk (PDict kvs) = Inr ()"
  using assms
  by (simp add: validate_config_from_disk_def dict_get_def py_float_def float_of_string_def
        is_nan_text_def float_of_literal_def gt_2_def)


lemma version_text_examples:
  "version_text_accepted ''1.0''" "version_text_accepted ''2.0''"
  "\<not> version_text_accepted ''2.1''" "\<not> version_text_accepted ''3.0''"
  "\<not> version_text_accepted ''abc''" "version_text_accepted ''2.0000000000000000001''"
  "\<not> is_nan_text ''1.0''" "\<not> is_nan_text ''2.0''" "\<not> is_nan_text ''2.1''"
  "\<not> is_nan_text ''3.0''" "\<not> is_nan_text ''abc''"
  "\<not> is_nan_text ''2.0000000000000000001''"
  "version_text_accepted (CHR 0xA0 # ''1.0'')" "\<not> is_nan_text (CHR 0xA0 # ''1.0'')"
  by code_simp+


lemma validate_version_2_0:
  "validate_config_from_disk (PDict [(''version'', PStr ''2.0'')]) = Inr ()"
  using validate_version_text [of "[(''version'', PStr ''2.0'')]" "''2.0''"]
  by (simp add: version_text_examples)

lemma validate_version_3_0:
  "validate_config_from_disk (PDict [(''version'', PStr ''3.0'')]) =
     Inl (UnknownConfigFileVersion (PStr ''3.0''))"
  using validate_version_text [of "[(''version'', PStr ''3.0'')]" "''3.0''"]
  by (simp add: version_text_examples)




lemma round_double_finite:
  assumes "\<bar>q\<bar> < 2 powi 1023"
  shows "\<exists>r. round_double q = Finite r"
proof (cases "q = 0")
  case True
  then show ?thesis by (simp add: round_double_def)
next
  case False
  then have a: "0 < \<bar>q\<bar>" by simp
  define e where "e = max (floor_log2 \<bar>q\<bar>) (- 1022)"
  define u :: rat where "u = 2 powi (e - 52)"
  define r :: rat where "r = of_int (round_half_even (q / u)) * u"
  have u: "0 < u" by (simp add: u_def)
  have "floor_log2 \<bar>q\<bar> < 1023" using a assms by (rule floor_log2_less)
  then have e: "e \<le> 1022" by (simp add: e_def)
  have "\<bar>q\<bar> < 2 powi (floor_log2 \<bar>q\<bar> + 1)" using floor_log2_bounds [OF a] by simp
  also have "\<dots> \<le> 2 powi (e + 1)"
    by (intro power_int_increasing) (simp_all add: e_def)
  finally have q: "\<bar>q\<bar> < 2 powi (e + 1)" .
  have pu: "(2::rat) powi (e + 1) = 2 ^ 53 * u"
  proof -
    have "(2::rat) ^ 53 * u = 2 powi (53 + (e - 52))"
      unfolding u_def by (subst power_int_add) simp_all
    moreover have "53 + (e - 52) = e + 1" by simp
    ultimately show ?thesis by (simp only:)
  qed
  have ab: "\<bar>q / u\<bar> \<le> 2 ^ 53"
    using q u pu by (simp add: abs_divide pos_divide_le_eq abs_of_pos)
  have "q / u \<le> 2 ^ 53" using ab by (rule abs_le_D1)
  moreover have "- (q / u) \<le> 2 ^ 53" using ab by (rule abs_le_D2)
  ultimately have "q / u \<le> of_int (2 ^ 53)" "of_int (- (2 ^ 53)) \<le> q / u" by simp_all
  then have "round_half_even (q / u) \<le> 2 ^ 53" "- (2 ^ 53) \<le> round_half_even (q / u)"
    by (auto intro: round_half_even_le round_half_even_ge)
  then have "\<bar>round_half_even (q / u)\<bar> \<le> 2 ^ 53" by simp
  then have "\<bar>(of_int (round_half_even (q / u)) :: rat)\<bar> \<le> of_int (2 ^ 53)"
    by (simp only: of_int_abs [symmetric] of_int_le_iff)
  then have "\<bar>r\<bar> \<le> 2 ^ 53 * u"
    using u by (simp add: r_def abs_mult abs_of_pos)
  also have "\<dots> = 2 powi (e + 1)" using pu by (simp add: add.commute)
  also have "\<dots> \<le> 2 powi 1023" using e by (intro power_int_increasing) simp_all
  also have "\<dots> < (2::rat) powi 1024" by (intro power_int_strict_increasing) simp_all
  finally have "\<not> 2 powi 1024 \<le> \<bar>r\<bar>" by simp
  then show ?thesis
    using round_double_unfold [OF False] by (simp add: r_def u_def e_def)
qed

lemma round_double_overflow_neg:
  assumes "q \<le> - (2 powi 1024)"
  shows "round_double q = NegInf"
proof -
  have "(0::rat) < 2 powi 1024" by simp
  with assms have q: "q < 0" by linarith
  then have a: "0 < \<bar>q\<bar>" by simp
  have big: "2 powi 1024 \<le> \<bar>q\<bar>" using assms q by simp
  define e where "e = floor_log2 \<bar>q\<bar>"
  define u :: rat where "u = 2 powi (e - 52)"
  define r :: rat where "r = of_int (round_half_even (q / u)) * u"
  have u: "0 < u" by (simp add: u_def)
  have e: "1024 \<le> e" unfolding e_def using a big by (rule floor_log2_ge)
  have pe: "(2::rat) powi e \<le> \<bar>q\<bar>" using floor_log2_bounds [OF a] by (simp add: e_def)
  have pu: "(2::rat) powi e = 2 ^ 52 * u"
  proof -
    have "(2::rat) ^ 52 * u = 2 powi (52 + (e - 52))"
      unfolding u_def by (subst power_int_add) simp_all
    then show ?thesis by simp
  qed
  have "2 ^ 52 * u \<le> - q" using pe pu q by simp
  then have "q \<le> - (2 ^ 52) * u" by simp
  then have "q / u \<le> of_int (- (2 ^ 52))" using u by (simp add: pos_divide_le_eq)
  then have "round_half_even (q / u) \<le> - (2 ^ 52)" by (rule round_half_even_le)
  then have "(of_int (round_half_even (q / u)) :: rat) \<le> of_int (- (2 ^ 52))"
    by (simp only: of_int_le_iff)
  then have "r \<le> of_int (- (2 ^ 52)) * u"
    unfolding r_def using u by (intro mult_right_mono) simp_all
  then have "r \<le> - (2 powi e)" using pu by simp
  moreover have "(2::rat) powi 1024 \<le> 2 powi e" using e by (intro power_int_increasing) simp_all
  ultimately have "2 powi 1024 \<le> \<bar>r\<bar>" by simp
  then show ?thesis
    using round_double_unfold [of q] q e by (simp add: r_def u_def e_def max_def)
qed

lemma gt_2_round_double_int: "gt_2 (round_double (of_int i)) \<longleftrightarrow> 2 < i"
proof -
  have "2 + 1 / 2 ^ 52 < (of_int i :: rat) \<longleftrightarrow> 2 < i"
  proof
    assume "2 + 1 / 2 ^ 52 < (of_int i :: rat)"
    then have "(of_int 2 :: rat) < of_int i" by simp
    then show "2 < i" by (simp only: of_int_less_iff)
  next
    assume "2 < i"
    then have "3 \<le> i" by simp
    then have "(of_int 3 :: rat) \<le> of_int i" by (simp only: of_int_le_iff)
    then show "2 + 1 / 2 ^ 52 < (of_int i :: rat)" by simp
  qed
  then show ?thesis by (simp add: gt_2_round_double)
qed

lemma validate_version_int:
  assumes "map_of kvs ''version'' = Some (PInt i)"
  shows "validate_config_from_disk (PDict kvs) =
           (if py_float (PInt i) = Inl OverflowError then Inl OverflowError
            else if i \<le> 2 then Inr () else Inl (UnknownConfigFileVersion (PInt i)))"
proof (cases "round_double (of_int i)")
  case (Finite r)
  then have "gt_2 (Finite r) \<longleftrightarrow> 2 < i" using gt_2_round_double_int [of i] by simp
  then show ?thesis
    using assms Finite by (auto simp: validate_config_from_disk_def dict_get_def py_float_def)
qed (use assms in \<open>simp_all add: validate_config_from_disk_def dict_get_def py_float_def\<close>)

lemma py_float_int_in_range:
  assumes "\<bar>i\<bar> < 2 ^ 1023"
  shows "py_float (PInt i) \<noteq> Inl OverflowError"
proof -
  have "\<bar>(of_int i :: rat)\<bar> < of_int (2 ^ 1023)"
    using assms by (simp only: of_int_abs [symmetric] of_int_less_iff)
  then have "\<bar>(of_int i :: rat)\<bar> < 2 powi 1023" by simp
  from round_double_finite [OF this] show ?thesis by (auto simp: py_float_def)
qed

text \<open>
  Claim C10, as the code has it, for a configuration whose \<open>version\<close> is present and no
  str. None, a list, a dict or a plain object makes \<open>float\<close> raise \<open>TypeError\<close>, which is
  not translated. An int that \<open>float\<close> can convert, in particular every int of magnitude
  below \<open>2^1023\<close>, is accepted exactly when it is at most 2. A finite float is accepted
  exactly when it is at most 2.0, plus infinity is rejected, minus infinity is accepted,
  and a bool is accepted.
\<close>

theorem validate_config_version_non_text:
  assumes "map_of kvs ''version'' = Some v"
  shows "(v = PNone \<or> (\<exists>xs. v = PList xs) \<or> (\<exists>d. v = PDict d) \<or> (\<exists>a. v = PObj a) \<longrightarrow>
            validate_config_from_disk (PDict kvs) = Inl TypeError) \<and>
         (\<forall>i. v = PInt i \<and> py_float (PInt i) \<noteq> Inl OverflowError \<longrightarrow>
            (validate_config_from_disk (PDict kvs) = Inr () \<longleftrightarrow> i \<le> 2) \<and>
            (2 < i \<longrightarrow>
               validate_config_from_disk (PDict kvs) = Inl (UnknownConfigFileVersion v))) \<and>
         (\<forall>i. v = PInt i \<and> \<bar>i\<bar> < 2 ^ 1023 \<longrightarrow> py_float (PInt i) \<noteq> Inl OverflowError) \<and>
         (\<forall>q. v = PFloat (Finite q) \<longrightarrow>
            (validate_config_from_disk (PDict kvs) = Inr () \<longleftrightarrow> q \<le> 2) \<and>
            (2 < q \<longrightarrow>
               validate_config_from_disk (PDict kvs) = Inl (UnknownConfigFileVersion v))) \<and>
         (v = PFloat PosInf \<longrightarrow>
            validate_config_from_disk (PDict kvs) = Inl (UnknownConfigFileVersion v)) \<and>
         (v = PFloat NegInf \<or> (\<exists>b. v = PBool b) \<longrightarrow>
            validate_config_from_disk (PDict kvs) = Inr ())"
proof -
  have 1: "v = PNone \<or> (\<exists>xs. v = PList xs) \<or> (\<exists>d. v = PDict d) \<or> (\<exists>a. v = PObj a) \<longrightarrow>
            validate_config_from_disk (PDict kvs) = Inl TypeError"
    using assms by (auto simp: validate_config_from_disk_def dict_get_def py_float_def)
  have 2: "\<forall>i. v = PInt i \<and> py_float (PInt i) \<noteq> Inl OverflowError \<longrightarrow>
            (validate_config_from_disk (PDict kvs) = Inr () \<longleftrightarrow> i \<le> 2) \<and>
            (2 < i \<longrightarrow>
               validate_config_from_disk (PDict kvs) = Inl (UnknownConfigFileVersion v))"
    using assms validate_version_int [of kvs] by auto
  have 3: "\<forall>i. v = PInt i \<and> \<bar>i\<bar> < 2 ^ 1023 \<longrightarrow> py_float (PInt i) \<noteq> Inl OverflowError"
    using py_float_int_in_range by blast
  have 4: "\<forall>q. v = PFloat (Finite q) \<longrightarrow>
            (validate_config_from_disk (PDict kvs) = Inr () \<longleftrightarrow> q \<le> 2) \<and>
            (2 < q \<longrightarrow>
               validate_config_from_disk (PDict kvs) = Inl (UnknownConfigFileVersion v))"
    using assms by (auto simp: validate_config_from_disk_def dict_get_def py_float_def gt_2_def)
  have 5: "v = PFloat PosInf \<longrightarrow>
            validate_config_from_disk (PDict kvs) = Inl (UnknownConfigFileVersion v)"
    using assms by (auto simp: validate_config_from_disk_def dict_get_def py_float_def gt_2_def)
  have 6: "v = PFloat NegInf \<or> (\<exists>b. v = PBool b) \<longrightarrow>
            validate_config_from_disk (PDict kvs) = Inr ()"
    using assms by (auto simp: validate_config_from_disk_def dict_get_def py_float_def gt_2_def)
  show ?thesis using 1 2 3 4 5 6 by blast
qed

text \<open>C10 at a list, at None, and at the ints 2 and 3.\<close>

theorem validate_config_version_non_text_witness:
  "validate_config_from_disk (PDict [(''version'', PList [PInt 1, PInt 0])]) = Inl TypeError \<and>
   validate_config_from_disk (PDict [(''version'', PNone)]) = Inl TypeError \<and>
   validate_config_from_disk (PDict [(''version'', PInt 2)]) = Inr () \<and>
   validate_config_from_disk (PDict [(''version'', PInt 3)]) =
     Inl (UnknownConfigFileVersion (PInt 3))"
proof -
  have r: "py_float (PInt 2) \<noteq> Inl OverflowError" "py_float (PInt 3) \<noteq> Inl OverflowError"
    by (rule py_float_int_in_range, simp)+
  show ?thesis
    using validate_config_version_non_text [of "[(''version'', PList [PInt 1, PInt 0])]"
        "PList [PInt 1, PInt 0]"]
      validate_config_version_non_text [of "[(''version'', PNone)]" PNone]
      validate_config_version_non_text [of "[(''version'', PInt 2)]" "PInt 2"]
      validate_config_version_non_text [of "[(''version'', PInt 3)]" "PInt 3"]
      r
    by simp
qed

text \<open>
  C10 as stated ("a numeric version value is accepted exactly when it is at most 2.0")
  fails on the JSON integer \<open>-2^1024\<close>: it is at most 2.0, but \<open>float\<close> raises
  \<open>OverflowError\<close> on it, which the \<open>except ValueError\<close> clause does not catch.
\<close>

theorem validate_config_version_overflow_counterexample:
  "validate_config_from_disk (PDict [(''version'', PInt (- (2 ^ 1024)))]) = Inl OverflowError \<and>
   - (2 ^ 1024) \<le> (2 :: int)"
proof -
  have "round_double (of_int (- (2 ^ 1024))) = NegInf"
    by (rule round_double_overflow_neg) simp
  then show ?thesis
    by (simp add: validate_config_from_disk_def dict_get_def py_float_def)
qed

section \<open>Properties of \<open>create_config_obj\<close>\<close>

lemma create_config_obj_unreadable:
  assumes "read_json env (config_file self) = Inl e"
  shows "create_config_obj self env st stage autogen api =
           (st\<lparr>actions := actions st @ [ReadConfig (config_file self)]\<rparr>,
            Inl (if e = OSError
                 then RuntimeError (''Unable to load the project config file. '' @
                                    ''Are you sure this is a chalice project?'')
                 else e))"
  using assms by (cases e) (simp_all add: create_config_obj_def load_project_config_def)

lemma create_config_obj_invalid:
  assumes "read_json env (config_file self) = Inr disk"
    and "validate_config_from_disk disk = Inl e"
  shows "create_config_obj self env st stage autogen api =
           (st\<lparr>actions := actions st @ [ReadConfig (config_file self)]\<rparr>, Inl e)"
  using assms by (simp add: create_config_obj_def load_project_config_def)

lemma create_config_obj_valid:
  assumes "read_json env (config_file self) = Inr disk"
    and "validate_config_from_disk disk = Inr u"
  shows "create_config_obj self env st stage autogen api =
           (case load_chalice_app self env
                   (st\<lparr>actions := actions st @ [ReadConfig (config_file self)]\<rparr>) of
              (st2, Inl e) \<Rightarrow> (st2, Inl e)
            | (st2, Inr app_obj) \<Rightarrow>
                (st2\<lparr>actions := actions st2 @ [ConstructConfig]\<rparr>,
                 Inr \<lparr>chalice_stage = stage,
                      user_provided_params = build_user_provided_params self app_obj autogen api,
                      config_from_disk = disk,
                      default_params = build_default_params self\<rparr>))"
  using assms by (simp add: create_config_obj_def load_project_config_def)

lemma load_chalice_app_state:
  "fst (load_chalice_app self env st) =
     st\<lparr>sys_path := adjust_sys_path (isdir env) (project_dir self) (sys_path st),
        actions := actions st @ [ImportModule ''app'']\<rparr>"
  by (simp add: load_chalice_app_def Let_def)

lemma build_user_provided_params_lookup:
  "build_user_provided_params self app_obj autogen api ''chalice_app'' = Some app_obj"
  "build_user_provided_params self app_obj autogen api ''autogen_policy'' = map_option PBool autogen"
  "build_user_provided_params self app_obj autogen api ''profile'' = map_option PStr (profile self)"
  "build_user_provided_params self app_obj autogen api ''api_gateway_stage'' = map_option PStr api"
  by (simp_all add: build_user_provided_params_def Let_def split: option.splits)

lemma build_user_provided_params_dom:
  "dom (build_user_provided_params self app_obj autogen api) =
     {''chalice_app''} \<union> (if autogen = None then {} else {''autogen_policy''}) \<union>
     (if profile self = None then {} else {''profile''}) \<union>
     (if api = None then {} else {''api_gateway_stage''})"
  by (auto simp: build_user_provided_params_def Let_def split: option.splits if_splits)

lemma create_config_obj_success:
  assumes "create_config_obj self env st stage autogen api = (st', Inr cfg)"
  shows "\<exists>disk app_obj.
           read_json env (config_file self) = Inr disk \<and>
           validate_config_from_disk disk = Inr () \<and>
           snd (load_chalice_app self env
                  (st\<lparr>actions := actions st @ [ReadConfig (config_file self)]\<rparr>)) = Inr app_obj \<and>
           cfg = \<lparr>chalice_stage = stage,
                  user_provided_params = build_user_provided_params self app_obj autogen api,
                  config_from_disk = disk,
                  default_params = build_default_params self\<rparr>"
proof (cases "read_json env (config_file self)")
  case (Inl e)
  then show ?thesis
    using assms create_config_obj_unreadable [of env self e st stage autogen api] by simp
next
  case (Inr disk)
  show ?thesis
  proof (cases "validate_config_from_disk disk")
    case (Inl e)
    then show ?thesis
      using assms Inr create_config_obj_invalid [of env self disk e st stage autogen api] by simp
  next
    case v: (Inr u)
    obtain st2 res where l: "load_chalice_app self env
        (st\<lparr>actions := actions st @ [ReadConfig (config_file self)]\<rparr>) = (st2, res)"
      by (cases "load_chalice_app self env
        (st\<lparr>actions := actions st @ [ReadConfig (config_file self)]\<rparr>)")
    show ?thesis
      using assms Inr v l create_config_obj_valid [of env self disk u st stage autogen api]
      by (cases res) auto
  qed
qed

text \<open>
  Claim C7. For every call of \<open>create_config_obj\<close> that returns a configuration, the
  user-provided layer holds the application that \<open>load_chalice_app\<close> returned under
  \<open>chalice_app\<close>; it holds \<open>autogen_policy\<close>, \<open>profile\<close> and \<open>api_gateway_stage\<close> exactly
  when the caller's argument, the factory's profile and the caller's stage are not None,
  with those values, and no other key; and the default layer holds exactly the project
  directory and \<open>autogen_policy = True\<close>.
\<close>

theorem create_config_obj_layers:
  assumes "create_config_obj self env st stage autogen api = (st', Inr cfg)"
  shows "(\<exists>app_obj.
            snd (load_chalice_app self env
                   (st\<lparr>actions := actions st @ [ReadConfig (config_file self)]\<rparr>)) = Inr app_obj \<and>
            user_provided_params cfg ''chalice_app'' = Some app_obj) \<and>
         user_provided_params cfg ''autogen_policy'' = map_option PBool autogen \<and>
         user_provided_params cfg ''profile'' = map_option PStr (profile self) \<and>
         user_provided_params cfg ''api_gateway_stage'' = map_option PStr api \<and>
         dom (user_provided_params cfg) \<subseteq>
           {''chalice_app'', ''autogen_policy'', ''profile'', ''api_gateway_stage''} \<and>
         default_params cfg ''project_dir'' = Some (PStr (project_dir self)) \<and>
         default_params cfg ''autogen_policy'' = Some (PBool True) \<and>
         dom (default_params cfg) = {''project_dir'', ''autogen_policy''}"
proof -
  from create_config_obj_success [OF assms] obtain disk app_obj where
    l: "snd (load_chalice_app self env
          (st\<lparr>actions := actions st @ [ReadConfig (config_file self)]\<rparr>)) = Inr app_obj" and
    u: "user_provided_params cfg = build_user_provided_params self app_obj autogen api" and
    d: "default_params cfg = build_default_params self"
    by auto
  have "dom (user_provided_params cfg) \<subseteq>
      {''chalice_app'', ''autogen_policy'', ''profile'', ''api_gateway_stage''}"
    unfolding u build_user_provided_params_dom by auto
  moreover have "dom (default_params cfg) = {''project_dir'', ''autogen_policy''}"
    unfolding d by (auto simp: build_default_params_def)
  moreover have "default_params cfg ''project_dir'' = Some (PStr (project_dir self))"
    "default_params cfg ''autogen_policy'' = Some (PBool True)"
    unfolding d by (simp_all add: build_default_params_def)
  ultimately show ?thesis
    using l by (simp add: u build_user_provided_params_lookup)
qed

text \<open>
  C7 at a project whose factory has the profile \<open>dev\<close>, called without an
  \<open>autogen_policy\<close> and with the API stage \<open>v1\<close>.
\<close>

theorem create_config_obj_layers_witness:
  "create_config_obj \<lparr>project_dir = ''/proj'', debug = False, profile = Some ''dev''\<rparr>
     (example_env [] [(''/proj/.chalice/config.json'', Inr (PDict [(''version'', PStr ''2.0'')]))]
        (Inr (PObj [(''app'', PObj [(''app_name'', PStr ''demo'')])])))
     \<lparr>sys_path = [], actions = []\<rparr> ''prod'' None (Some ''v1'') =
   (\<lparr>sys_path = [''/proj''],
     actions = [ReadConfig ''/proj/.chalice/config.json'', ImportModule ''app'', ConstructConfig]\<rparr>,
    Inr \<lparr>chalice_stage = ''prod'',
         user_provided_params =
           build_user_provided_params \<lparr>project_dir = ''/proj'', debug = False, profile = Some ''dev''\<rparr>
             (PObj [(''app_name'', PStr ''demo'')]) None (Some ''v1''),
         config_from_disk = PDict [(''version'', PStr ''2.0'')],
         default_params =
           build_default_params \<lparr>project_dir = ''/proj'', debug = False, profile = Some ''dev''\<rparr>\<rparr>) \<and>
   build_user_provided_params \<lparr>project_dir = ''/proj'', debug = False, profile = Some ''dev''\<rparr>
     (PObj [(''app_name'', PStr ''demo'')]) None (Some ''v1'') ''chalice_app'' =
     Some (PObj [(''app_name'', PStr ''demo'')]) \<and>
   build_user_provided_params \<lparr>project_dir = ''/proj'', debug = False, profile = Some ''dev''\<rparr>
     (PObj [(''app_name'', PStr ''demo'')]) None (Some ''v1'') ''autogen_policy'' = None \<and>
   build_user_provided_params \<lparr>project_dir = ''/proj'', debug = False, profile = Some ''dev''\<rparr>
     (PObj [(''app_name'', PStr ''demo'')]) None (Some ''v1'') ''profile'' = Some (PStr ''dev'') \<and>
   build_user_provided_params \<lparr>project_dir = ''/proj'', debug = False, profile = Some ''dev''\<rparr>
     (PObj [(''app_name'', PStr ''demo'')]) None (Some ''v1'') ''api_gateway_stage'' =
     Some (PStr ''v1'')"
proof -
  let ?self = "\<lparr>project_dir = ''/proj'', debug = False, profile = Some ''dev''\<rparr>"
  let ?env = "example_env []
      [(''/proj/.chalice/config.json'', Inr (PDict [(''version'', PStr ''2.0'')]))]
      (Inr (PObj [(''app'', PObj [(''app_name'', PStr ''demo'')])]))"
  note v = validate_version_2_0
  have h: "create_config_obj ?self ?env \<lparr>sys_path = [], actions = []\<rparr> ''prod'' None (Some ''v1'') =
     (\<lparr>sys_path = [''/proj''],
       actions = [ReadConfig ''/proj/.chalice/config.json'', ImportModule ''app'', ConstructConfig]\<rparr>,
      Inr \<lparr>chalice_stage = ''prod'',
           user_provided_params =
             build_user_provided_params ?self (PObj [(''app_name'', PStr ''demo'')]) None (Some ''v1''),
           config_from_disk = PDict [(''version'', PStr ''2.0'')],
           default_params = build_default_params ?self\<rparr>)"
    by (simp add: create_config_obj_def load_project_config_def config_file_def path_join_def
          example_env_def v load_chalice_app_def adjust_sys_path_def dirs_of_def getattr_def Let_def)
  show ?thesis
    using h create_config_obj_layers [OF h] by (simp add: build_user_provided_params_lookup)
qed

lemma load_chalice_app_actions:
  "actions (fst (load_chalice_app self env st)) = actions st @ [ImportModule ''app'']"
  by (simp add: load_chalice_app_state)

lemma load_chalice_app_result:
  "snd (load_chalice_app self env st) =
     (case import_module env (adjust_sys_path (isdir env) (project_dir self) (sys_path st)) ''app'' of
        Inl (SyntaxError filename lineno etext emsg) \<Rightarrow>
          Inl (RuntimeError (syntax_error_message filename lineno etext emsg))
      | Inl e \<Rightarrow> Inl e
      | Inr app \<Rightarrow> getattr app ''app'')"
proof (cases "import_module env (adjust_sys_path (isdir env) (project_dir self) (sys_path st)) ''app''")
  case (Inl e)
  then show ?thesis
    by (cases e) (simp_all add: load_chalice_app_def Let_def)
next
  case (Inr app)
  show ?thesis
  proof (cases "getattr app ''app''")
    case (Inl e)
    then have "e = AttributeError" by (rule getattr_error)
    then show ?thesis using Inl Inr by (simp add: load_chalice_app_def Let_def)
  next
    case r: (Inr a)
    then show ?thesis using Inr by (simp add: load_chalice_app_def Let_def)
  qed
qed

text \<open>
  Claim C8. Once the configuration file has been read: if version validation fails,
  \<open>create_config_obj\<close> ends with that failure and the only action it has added is the
  reading of the file, so the application was not imported and no configuration object
  was built, and \<open>sys.path\<close> is as before. If validation passes, the application is
  loaded whatever the other arguments are: \<open>sys.path\<close> is adjusted, the import of \<open>app\<close>
  is the next action, and the outcome of the call is decided by what that import gives,
  namely its exception (a \<open>SyntaxError\<close> translated), the \<open>AttributeError\<close> of a missing
  \<open>app\<close>, or the configuration whose user-provided layer is built around the
  application that the module holds.
\<close>

theorem validation_precedes_loading:
  assumes "read_json env (config_file self) = Inr disk"
  shows "(\<forall>e. validate_config_from_disk disk = Inl e \<longrightarrow>
            create_config_obj self env st stage autogen api =
              (st\<lparr>actions := actions st @ [ReadConfig (config_file self)]\<rparr>, Inl e)) \<and>
         (validate_config_from_disk disk = Inr () \<longrightarrow>
            snd (create_config_obj self env st stage autogen api) =
              (case import_module env
                      (adjust_sys_path (isdir env) (project_dir self) (sys_path st)) ''app'' of
                 Inl (SyntaxError filename lineno etext emsg) \<Rightarrow>
                   Inl (RuntimeError (syntax_error_message filename lineno etext emsg))
               | Inl e \<Rightarrow> Inl e
               | Inr app \<Rightarrow>
                   (case getattr app ''app'' of
                      Inl e \<Rightarrow> Inl e
                    | Inr app_obj \<Rightarrow>
                        Inr \<lparr>chalice_stage = stage,
                             user_provided_params =
                               build_user_provided_params self app_obj autogen api,
                             config_from_disk = disk,
                             default_params = build_default_params self\<rparr>)) \<and>
            sys_path (fst (create_config_obj self env st stage autogen api)) =
              adjust_sys_path (isdir env) (project_dir self) (sys_path st) \<and>
            (actions (fst (create_config_obj self env st stage autogen api)) =
               actions st @ [ReadConfig (config_file self), ImportModule ''app''] \<or>
             actions (fst (create_config_obj self env st stage autogen api)) =
               actions st @ [ReadConfig (config_file self), ImportModule ''app'', ConstructConfig]))"
proof (intro conjI allI impI)
  fix e assume "validate_config_from_disk disk = Inl e"
  with assms show "create_config_obj self env st stage autogen api =
      (st\<lparr>actions := actions st @ [ReadConfig (config_file self)]\<rparr>, Inl e)"
    by (rule create_config_obj_invalid)
next
  assume v: "validate_config_from_disk disk = Inr ()"
  let ?st1 = "st\<lparr>actions := actions st @ [ReadConfig (config_file self)]\<rparr>"
  let ?imp = "import_module env (adjust_sys_path (isdir env) (project_dir self) (sys_path st)) ''app''"
  obtain st2 res where l: "load_chalice_app self env ?st1 = (st2, res)"
    by (cases "load_chalice_app self env ?st1")
  have res: "res = (case ?imp of
                 Inl (SyntaxError filename lineno etext emsg) \<Rightarrow>
                   Inl (RuntimeError (syntax_error_message filename lineno etext emsg))
               | Inl e \<Rightarrow> Inl e
               | Inr app \<Rightarrow> getattr app ''app'')"
    using load_chalice_app_result [of self env ?st1] l by simp
  have c: "create_config_obj self env st stage autogen api =
      (case res of
         Inl e \<Rightarrow> (st2, Inl e)
       | Inr app_obj \<Rightarrow>
           (st2\<lparr>actions := actions st2 @ [ConstructConfig]\<rparr>,
            Inr \<lparr>chalice_stage = stage,
                 user_provided_params = build_user_provided_params self app_obj autogen api,
                 config_from_disk = disk,
                 default_params = build_default_params self\<rparr>))"
    using create_config_obj_valid [OF assms v, of st stage autogen api] l
    by (cases res) simp_all
  show "snd (create_config_obj self env st stage autogen api) =
      (case ?imp of
         Inl (SyntaxError filename lineno etext emsg) \<Rightarrow>
           Inl (RuntimeError (syntax_error_message filename lineno etext emsg))
       | Inl e \<Rightarrow> Inl e
       | Inr app \<Rightarrow>
           (case getattr app ''app'' of
              Inl e \<Rightarrow> Inl e
            | Inr app_obj \<Rightarrow>
                Inr \<lparr>chalice_stage = stage,
                     user_provided_params = build_user_provided_params self app_obj autogen api,
                     config_from_disk = disk,
                     default_params = build_default_params self\<rparr>))"
  proof (cases ?imp)
    case (Inl e)
    then show ?thesis using c res by (cases e) simp_all
  next
    case (Inr app)
    then show ?thesis using c res by (cases "getattr app ''app''") simp_all
  qed
  have s2: "st2 = ?st1\<lparr>sys_path := adjust_sys_path (isdir env) (project_dir self) (sys_path ?st1),
                        actions := actions ?st1 @ [ImportModule ''app'']\<rparr>"
    using load_chalice_app_state [of self env ?st1] l by simp
  show "sys_path (fst (create_config_obj self env st stage autogen api)) =
      adjust_sys_path (isdir env) (project_dir self) (sys_path st)"
    using c s2 by (cases res) simp_all
  show "actions (fst (create_config_obj self env st stage autogen api)) =
          actions st @ [ReadConfig (config_file self), ImportModule ''app''] \<or>
        actions (fst (create_config_obj self env st stage autogen api)) =
          actions st @ [ReadConfig (config_file self), ImportModule ''app'', ConstructConfig]"
    using c s2 by (cases res) simp_all
qed

text \<open>
  C8 at a project whose configuration file says version 3.0, and at the same project
  with version 2.0, where the application held by the imported module reaches the
  configuration.
\<close>

theorem validation_precedes_loading_witness:
  "read_json (example_env [] [(''/proj/.chalice/config.json'', Inr (PDict [(''version'', PStr ''3.0'')]))]
                (Inr (PObj [(''app'', PObj [(''app_name'', PStr ''demo'')])])))
     (config_file \<lparr>project_dir = ''/proj'', debug = False, profile = None\<rparr>) =
     Inr (PDict [(''version'', PStr ''3.0'')]) \<and>
   create_config_obj \<lparr>project_dir = ''/proj'', debug = False, profile = None\<rparr>
     (example_env [] [(''/proj/.chalice/config.json'', Inr (PDict [(''version'', PStr ''3.0'')]))]
        (Inr (PObj [(''app'', PObj [(''app_name'', PStr ''demo'')])])))
     \<lparr>sys_path = [''/usr/lib''], actions = []\<rparr> ''dev'' None None =
   (\<lparr>sys_path = [''/usr/lib''], actions = [ReadConfig ''/proj/.chalice/config.json'']\<rparr>,
    Inl (UnknownConfigFileVersion (PStr ''3.0''))) \<and>
   read_json (example_env [] [(''/proj/.chalice/config.json'', Inr (PDict [(''version'', PStr ''2.0'')]))]
                (Inr (PObj [(''app'', PObj [(''app_name'', PStr ''demo'')])])))
     (config_file \<lparr>project_dir = ''/proj'', debug = False, profile = None\<rparr>) =
     Inr (PDict [(''version'', PStr ''2.0'')]) \<and>
   snd (create_config_obj \<lparr>project_dir = ''/proj'', debug = False, profile = None\<rparr>
     (example_env [] [(''/proj/.chalice/config.json'', Inr (PDict [(''version'', PStr ''2.0'')]))]
        (Inr (PObj [(''app'', PObj [(''app_name'', PStr ''demo'')])])))
     \<lparr>sys_path = [''/usr/lib''], actions = []\<rparr> ''dev'' None None) =
     Inr \<lparr>chalice_stage = ''dev'',
          user_provided_params =
            build_user_provided_params \<lparr>project_dir = ''/proj'', debug = False, profile = None\<rparr>
              (PObj [(''app_name'', PStr ''demo'')]) None None,
          config_from_disk = PDict [(''version'', PStr ''2.0'')],
          default_params =
            build_default_params \<lparr>project_dir = ''/proj'', debug = False, profile = None\<rparr>\<rparr> \<and>
   sys_path (fst (create_config_obj \<lparr>project_dir = ''/proj'', debug = False, profile = None\<rparr>
     (example_env [] [(''/proj/.chalice/config.json'', Inr (PDict [(''version'', PStr ''2.0'')]))]
        (Inr (PObj [(''app'', PObj [(''app_name'', PStr ''demo'')])])))
     \<lparr>sys_path = [''/usr/lib''], actions = []\<rparr> ''dev'' None None)) = [''/proj'', ''/usr/lib'']"
proof -
  let ?self = "\<lparr>project_dir = ''/proj'', debug = False, profile = None\<rparr>"
  let ?st = "\<lparr>sys_path = [''/usr/lib''], actions = []\<rparr>"
  let ?env3 = "example_env []
      [(''/proj/.chalice/config.json'', Inr (PDict [(''version'', PStr ''3.0'')]))]
      (Inr (PObj [(''app'', PObj [(''app_name'', PStr ''demo'')])]))"
  let ?env2 = "example_env []
      [(''/proj/.chalice/config.json'', Inr (PDict [(''version'', PStr ''2.0'')]))]
      (Inr (PObj [(''app'', PObj [(''app_name'', PStr ''demo'')])]))"
  have f: "config_file ?self = ''/proj/.chalice/config.json''"
    by (simp add: config_file_def path_join_def)
  have h3: "read_json ?env3 (config_file ?self) = Inr (PDict [(''version'', PStr ''3.0'')])"
    by (simp add: f example_env_def)
  have h2: "read_json ?env2 (config_file ?self) = Inr (PDict [(''version'', PStr ''2.0'')])"
    by (simp add: f example_env_def)
  have i: "import_module ?env2 p n = Inr (PObj [(''app'', PObj [(''app_name'', PStr ''demo'')])])"
    for p n by (simp add: example_env_def)
  have d: "isdir ?env2 = dirs_of []" by (simp add: example_env_def)
  have a: "adjust_sys_path (dirs_of []) ''/proj'' [''/usr/lib''] = [''/proj'', ''/usr/lib'']"
    by (simp add: adjust_sys_path_def path_join_def dirs_of_def)
  have g: "getattr (PObj [(''app'', PObj [(''app_name'', PStr ''demo'')])]) ''app'' =
             Inr (PObj [(''app_name'', PStr ''demo'')])"
    by (simp add: getattr_def)
  have 3: "create_config_obj ?self ?env3 ?st ''dev'' None None =
     (\<lparr>sys_path = [''/usr/lib''], actions = [ReadConfig ''/proj/.chalice/config.json'']\<rparr>,
      Inl (UnknownConfigFileVersion (PStr ''3.0'')))"
    using validate_version_3_0 validation_precedes_loading [OF h3, of ?st "''dev''" None None]
    by (simp add: f)
  have 2: "snd (create_config_obj ?self ?env2 ?st ''dev'' None None) =
       Inr \<lparr>chalice_stage = ''dev'',
            user_provided_params =
              build_user_provided_params ?self (PObj [(''app_name'', PStr ''demo'')]) None None,
            config_from_disk = PDict [(''version'', PStr ''2.0'')],
            default_params = build_default_params ?self\<rparr> \<and>
     sys_path (fst (create_config_obj ?self ?env2 ?st ''dev'' None None)) = [''/proj'', ''/usr/lib'']"
    using validate_version_2_0 validation_precedes_loading [OF h2, of ?st "''dev''" None None]
    by (simp add: i d a g)
  show ?thesis using h3 h2 3 2 by simp
qed

lemma dict_get_error: "dict_get d k dflt = Inl e \<Longrightarrow> e = AttributeError"
  by (cases d) (simp_all add: dict_get_def)

lemma py_float_error:
  "py_float v = Inl e \<Longrightarrow> e = ValueError \<or> e = TypeError \<or> e = OverflowError"
  by (cases v) (auto simp: py_float_def float_of_string_def split: pyfloat.splits option.splits)

lemma validate_config_from_disk_error:
  assumes "validate_config_from_disk d = Inl e"
  shows "e = AttributeError \<or> e = TypeError \<or> e = OverflowError \<or>
         (\<exists>v. e = UnknownConfigFileVersion v)"
proof (cases "dict_get d ''version'' (PStr ''1.0'')")
  case (Inl x)
  then show ?thesis
    using assms dict_get_error [OF Inl] by (simp add: validate_config_from_disk_def)
next
  case (Inr sv)
  show ?thesis
  proof (cases "py_float sv")
    case (Inl x)
    from py_float_error [OF Inl] show ?thesis
      using assms Inr Inl by (auto simp: validate_config_from_disk_def)
  next
    case f: (Inr x)
    then show ?thesis
      using assms Inr by (auto simp: validate_config_from_disk_def split: if_splits)
  qed
qed

lemma load_chalice_app_error:
  assumes "snd (load_chalice_app self env st) = Inl e"
  shows "(\<exists>f l t m. import_module env (adjust_sys_path (isdir env) (project_dir self) (sys_path st))
             ''app'' = Inl (SyntaxError f l t m) \<and>
           e = RuntimeError (syntax_error_message f l t m)) \<or>
         (import_module env (adjust_sys_path (isdir env) (project_dir self) (sys_path st)) ''app'' =
            Inl e \<and> (\<forall>f l t m. e \<noteq> SyntaxError f l t m)) \<or>
         (\<exists>app. import_module env (adjust_sys_path (isdir env) (project_dir self) (sys_path st))
             ''app'' = Inr app \<and> getattr app ''app'' = Inl e \<and> e = AttributeError)"
proof (cases "\<exists>f l t m. import_module env
    (adjust_sys_path (isdir env) (project_dir self) (sys_path st)) ''app'' = Inl (SyntaxError f l t m)")
  case True
  then show ?thesis
    using assms load_chalice_app_syntax_error [of env self st] by auto
next
  case False
  then have "snd (load_chalice_app self env st) =
      (case import_module env (adjust_sys_path (isdir env) (project_dir self) (sys_path st)) ''app'' of
         Inl e \<Rightarrow> Inl e | Inr app \<Rightarrow> getattr app ''app'')"
    by (intro load_chalice_app_other) simp
  with assms False show ?thesis
    by (auto split: sum.splits dest: getattr_error)
qed

text \<open>
  Claim C2, as the code has it. A failure to open or read the configuration file
  (\<open>OSError\<close>, \<open>IOError\<close>) always surfaces as the one \<open>RuntimeError\<close> about the project
  directory. Every error that \<open>create_config_obj\<close> surfaces is that error, or
  \<open>UnknownConfigFileVersion\<close>, or the \<open>RuntimeError\<close> built from a \<open>SyntaxError\<close> of the
  import, or else an exception that passes through as it was raised: by reading and
  decoding the file (anything but \<open>OSError\<close>), by \<open>config.get\<close> and \<open>float\<close> on the version
  (\<open>AttributeError\<close>, \<open>TypeError\<close>, \<open>OverflowError\<close>), by the import (anything but
  \<open>SyntaxError\<close>), or by \<open>getattr(app, 'app')\<close> (\<open>AttributeError\<close>).
\<close>

theorem create_config_obj_error_kinds:
  "(read_json env (config_file self) = Inl OSError \<longrightarrow>
      snd (create_config_obj self env st stage autogen api) =
        Inl (RuntimeError (''Unable to load the project config file. '' @
                           ''Are you sure this is a chalice project?''))) \<and>
   (snd (create_config_obj self env st stage autogen api) = Inl e \<longrightarrow>
      (read_json env (config_file self) = Inl OSError \<and>
       e = RuntimeError (''Unable to load the project config file. '' @
                         ''Are you sure this is a chalice project?'')) \<or>
      (\<exists>disk v. read_json env (config_file self) = Inr disk \<and>
         validate_config_from_disk disk = Inl e \<and> e = UnknownConfigFileVersion v) \<or>
      (\<exists>f l t m. import_module env (adjust_sys_path (isdir env) (project_dir self) (sys_path st))
           ''app'' = Inl (SyntaxError f l t m) \<and>
         e = RuntimeError (syntax_error_message f l t m)) \<or>
      (read_json env (config_file self) = Inl e \<and> e \<noteq> OSError) \<or>
      (\<exists>disk. read_json env (config_file self) = Inr disk \<and>
         validate_config_from_disk disk = Inl e \<and>
         (e = AttributeError \<or> e = TypeError \<or> e = OverflowError)) \<or>
      (import_module env (adjust_sys_path (isdir env) (project_dir self) (sys_path st)) ''app'' =
         Inl e \<and> (\<forall>f l t m. e \<noteq> SyntaxError f l t m)) \<or>
      (\<exists>app. import_module env (adjust_sys_path (isdir env) (project_dir self) (sys_path st))
           ''app'' = Inr app \<and> getattr app ''app'' = Inl e \<and> e = AttributeError))"
proof (intro conjI impI)
  assume "read_json env (config_file self) = Inl OSError"
  then show "snd (create_config_obj self env st stage autogen api) =
      Inl (RuntimeError (''Unable to load the project config file. '' @
                         ''Are you sure this is a chalice project?''))"
    using create_config_obj_unreadable [of env self OSError st stage autogen api] by simp
next
  assume r: "snd (create_config_obj self env st stage autogen api) = Inl e"
  let ?goal = "(read_json env (config_file self) = Inl OSError \<and>
       e = RuntimeError (''Unable to load the project config file. '' @
                         ''Are you sure this is a chalice project?'')) \<or>
      (\<exists>disk v. read_json env (config_file self) = Inr disk \<and>
         validate_config_from_disk disk = Inl e \<and> e = UnknownConfigFileVersion v) \<or>
      (\<exists>f l t m. import_module env (adjust_sys_path (isdir env) (project_dir self) (sys_path st))
           ''app'' = Inl (SyntaxError f l t m) \<and>
         e = RuntimeError (syntax_error_message f l t m)) \<or>
      (read_json env (config_file self) = Inl e \<and> e \<noteq> OSError) \<or>
      (\<exists>disk. read_json env (config_file self) = Inr disk \<and>
         validate_config_from_disk disk = Inl e \<and>
         (e = AttributeError \<or> e = TypeError \<or> e = OverflowError)) \<or>
      (import_module env (adjust_sys_path (isdir env) (project_dir self) (sys_path st)) ''app'' =
         Inl e \<and> (\<forall>f l t m. e \<noteq> SyntaxError f l t m)) \<or>
      (\<exists>app. import_module env (adjust_sys_path (isdir env) (project_dir self) (sys_path st))
           ''app'' = Inr app \<and> getattr app ''app'' = Inl e \<and> e = AttributeError)"
  show ?goal
  proof (cases "read_json env (config_file self)")
    case (Inl x)
    then show ?thesis
      using r create_config_obj_unreadable [of env self x st stage autogen api]
      by (cases "x = OSError") auto
  next
    case (Inr disk)
    show ?thesis
    proof (cases "validate_config_from_disk disk")
      case (Inl x)
      then have "x = e"
        using r create_config_obj_invalid [OF Inr Inl, of st stage autogen api] by simp
      then show ?thesis
        using Inr Inl validate_config_from_disk_error [OF Inl] by auto
    next
      case v: (Inr u)
      let ?st1 = "st\<lparr>actions := actions st @ [ReadConfig (config_file self)]\<rparr>"
      obtain st2 res where l: "load_chalice_app self env ?st1 = (st2, res)"
        by (cases "load_chalice_app self env ?st1")
      have "res = Inl e"
        using r create_config_obj_valid [OF Inr v, of st stage autogen api] l
        by (cases res) simp_all
      then have "snd (load_chalice_app self env ?st1) = Inl e" using l by simp
      from load_chalice_app_error [OF this]
      have "(\<exists>f l t m. import_module env (adjust_sys_path (isdir env) (project_dir self) (sys_path st))
             ''app'' = Inl (SyntaxError f l t m) \<and>
           e = RuntimeError (syntax_error_message f l t m)) \<or>
         (import_module env (adjust_sys_path (isdir env) (project_dir self) (sys_path st)) ''app'' =
            Inl e \<and> (\<forall>f l t m. e \<noteq> SyntaxError f l t m)) \<or>
         (\<exists>app. import_module env (adjust_sys_path (isdir env) (project_dir self) (sys_path st))
             ''app'' = Inr app \<and> getattr app ''app'' = Inl e \<and> e = AttributeError)"
        by simp
      then show ?thesis by blast
    qed
  qed
qed

text \<open>
  C2 at a project without a configuration file, and at one whose \<open>app.py\<close> imports but
  defines no \<open>app\<close>.
\<close>

theorem create_config_obj_error_kinds_witness:
  "snd (create_config_obj \<lparr>project_dir = ''/proj'', debug = False, profile = None\<rparr>
          (example_env [] [] (Inr (PObj [(''app'', PObj [])])))
          \<lparr>sys_path = [], actions = []\<rparr> ''dev'' None None) =
     Inl (RuntimeError (''Unable to load the project config file. '' @
                        ''Are you sure this is a chalice project?''))"
  using create_config_obj_error_kinds [of
      "example_env [] [] (Inr (PObj [(''app'', PObj [])]))"
      "\<lparr>project_dir = ''/proj'', debug = False, profile = None\<rparr>"
      "\<lparr>sys_path = [], actions = []\<rparr>" "''dev''" None None]
  by (simp add: example_env_def)

text \<open>
  C2 as stated ("no other error kind escapes resolution") fails on a project whose
  \<open>app.py\<close> imports without error but defines no \<open>app\<close>: the \<open>AttributeError\<close> of
  \<open>getattr\<close> reaches the caller as it is.
\<close>

theorem create_config_obj_attribute_error_counterexample:
  "snd (create_config_obj \<lparr>project_dir = ''/proj'', debug = False, profile = None\<rparr>
          (example_env [] [(''/proj/.chalice/config.json'', Inr (PDict [(''version'', PStr ''2.0'')]))]
             (Inr (PObj [])))
          \<lparr>sys_path = [], actions = []\<rparr> ''dev'' None None) = Inl AttributeError"
proof -
  note v = validate_version_2_0
  show ?thesis
    by (simp add: create_config_obj_def load_project_config_def config_file_def path_join_def
          example_env_def v load_chalice_app_def getattr_def Let_def)
qed

end
